theory Spec2Isabelle
  imports Main
begin

section \<open>MongoDB connection manager (\<open>src/utils/mongodb.js\<close>)\<close>

text \<open>
  The module keeps two module-level variables, \<open>cachedClient\<close> and \<open>cachedDb\<close>, and
  talks to the MongoDB driver, which is an external library. The embedding threads a
  \<open>world\<close> through every function: the two variables, the console output, the list of
  calls issued to the driver (oldest first) and the collections of the server. What the
  driver answers is not decided by the module, so it is a parameter: a \<open>driver\<close> says,
  for the n-th call issued to it, whether that call throws, and what the liveness probe
  reports. A JavaScript exception is the \<open>Inl\<close> branch of the result.

  The calls of the module are run one after the other: an \<open>await\<close> is a plain call, and
  two invocations never interleave. The server changes only through the calls of the
  module.

  The repository holds the file twice (\<open>src/utils\<close> and \<open>scr/utils\<close>). The functions
  modelled here differ between the two copies only in console output and in two
  constructor options; the model follows \<open>src/utils/mongodb.js\<close>. \<open>checkMongoHealth\<close>
  is not modelled.
\<close>

subsection \<open>Values, handles and the environment\<close>

text \<open>A thrown JavaScript \<open>Error\<close> object, with its \<open>message\<close>.\<close>

datatype error = Error (message: string)

text \<open>
  The values a caller can pass to \<open>isValidObjectId\<close>. A string is a character list;
  the 22 characters the regular expression accepts are ASCII, so a character outside
  ASCII is rejected however it is encoded. A number carries an integer: the function
  only asks whether its argument is a string.
\<close>

datatype jsvalue =
    Undefined
  | Null
  | Boolean bool
  | Number int
  | String string
  | Object "(string \<times> jsvalue) list"

text \<open>The \<open>env\<close> argument: each variable is a string or is not set.\<close>

record env =
  MONGODB_URI :: "string option"
  DATABASE_NAME :: "string option"
  COLLECTION_NAME :: "string option"

text \<open>JavaScript truthiness of such a variable: \<open>undefined\<close> and \<open>''\<close> are falsy.\<close>

fun truthy :: "string option \<Rightarrow> bool" where
  "truthy None = False"
| "truthy (Some s) = (s \<noteq> [])"

text \<open>\<open>x || d\<close> for a variable \<open>x\<close> and a default string \<open>d\<close>.\<close>

fun or_default :: "string option \<Rightarrow> string \<Rightarrow> string" where
  "or_default None d = d"
| "or_default (Some s) d = (if s \<noteq> [] then s else d)"

text \<open>The options object passed to \<open>new MongoClient\<close>.\<close>

record options =
  maxPoolSize :: nat
  minPoolSize :: nat
  maxIdleTimeMS :: nat
  connectTimeoutMS :: nat
  socketTimeoutMS :: nat
  serverSelectionTimeoutMS :: nat
  retryWrites :: bool
  w :: string
  useNewUrlParser :: bool
  useUnifiedTopology :: bool

text \<open>
  Handles. A client is the object made by \<open>new MongoClient(uri, ...)\<close>; its number
  is the position of the constructor call among the driver calls, so two constructions
  never give the same handle. \<open>client.db(name)\<close> and \<open>db.collection(name)\<close> derive a
  handle locally, without a driver round trip.
\<close>

datatype client = MongoClient (client_id: nat) (client_uri: string)

datatype db = Db (db_client: client) (db_name: string)

datatype collection = Collection (collection_db: db) (collection_name: string)

text \<open>An index: the keys object (\<open>1\<close>, \<open>-1\<close> or \<open>'text'\<close> per field) and the options object.\<close>

datatype key_kind = Ascending | Descending | Text

datatype index_option = Unique bool | Sparse bool | Weights "(string \<times> nat) list"

type_synonym index = "(string \<times> key_kind) list \<times> index_option list"

subsection \<open>The driver and the world\<close>

text \<open>Every call the module issues to the driver.\<close>

datatype event =
    NewMongoClient string options
  | IsConnected client
  | Connect client
  | Ping client
  | ListCollections db string
  | CreateCollection db string
  | CreateIndex collection index
  | Close client

text \<open>
  The calls that go to the server. Constructing a client and asking the handle
  whether it is connected are local.
\<close>

fun is_network :: "event \<Rightarrow> bool" where
  "is_network (NewMongoClient _ _) = False"
| "is_network (IsConnected _) = False"
| "is_network _ = True"

fun is_creation :: "event \<Rightarrow> bool" where
  "is_creation (CreateCollection _ _) = True"
| "is_creation (CreateIndex _ _) = True"
| "is_creation _ = False"

fun is_createIndex :: "event \<Rightarrow> bool" where
  "is_createIndex (CreateIndex _ _) = True"
| "is_createIndex _ = False"

text \<open>
  The behaviour of the driver and the network: \<open>throws d n\<close> is the error with which
  the n-th driver call rejects (\<open>None\<close> when it resolves), and \<open>isConnected d n c\<close>
  is what \<open>c.topology?.isConnected()\<close> yields when it is the n-th driver call
  (\<open>None\<close> when \<open>topology\<close> is undefined).
\<close>

record driver =
  throws :: "nat \<Rightarrow> error option"
  isConnected :: "nat \<Rightarrow> client \<Rightarrow> bool option"

datatype level = LOG | WARN | ERROR

datatype console_arg = Str string | Err error | Stack error

text \<open>A collection on the server is named by connection string, database and collection.\<close>

type_synonym namespace = "string \<times> string \<times> string"

record world =
  cachedClient :: "client option"
  cachedDb :: "db option"
  console :: "(level \<times> console_arg list) list"
  calls :: "event list"
  server :: "namespace \<rightharpoonup> index list"

type_synonym 'a io = "world \<Rightarrow> (error + 'a) \<times> world"

subsection \<open>Control flow\<close>

definition io_return :: "'a \<Rightarrow> 'a io" where
  "io_return x = (\<lambda>s. (Inr x, s))"

definition io_throw :: "error \<Rightarrow> 'a io" where
  "io_throw e = (\<lambda>s. (Inl e, s))"

definition io_bind :: "'a io \<Rightarrow> ('a \<Rightarrow> 'b io) \<Rightarrow> 'b io" where
  "io_bind m f = (\<lambda>s. case m s of (Inl e, s') \<Rightarrow> (Inl e, s') | (Inr x, s') \<Rightarrow> f x s')"

definition io_then :: "'a io \<Rightarrow> 'b io \<Rightarrow> 'b io" where
  "io_then m n = io_bind m (\<lambda>_. n)"

text \<open>A block of statements, run in order up to the first that throws.\<close>

fun io_block :: "unit io list \<Rightarrow> unit io" where
  "io_block [] = io_return ()"
| "io_block (m # ms) = io_then m (io_block ms)"

text \<open>\<open>try { m } catch (error) { h error }\<close>\<close>

definition try_catch :: "'a io \<Rightarrow> (error \<Rightarrow> 'a io) \<Rightarrow> 'a io" where
  "try_catch m h = (\<lambda>s. case m s of (Inl e, s') \<Rightarrow> h e s' | (Inr x, s') \<Rightarrow> (Inr x, s'))"

text \<open>
  \<open>try { m } catch (error) { h error } finally { f }\<close>: the \<open>finally\<close> block runs
  whatever the outcome, and an exception of its own replaces the outcome.
\<close>

definition try_catch_finally :: "'a io \<Rightarrow> (error \<Rightarrow> 'a io) \<Rightarrow> unit io \<Rightarrow> 'a io" where
  "try_catch_finally m h f =
     (\<lambda>s. case try_catch m h s of
        (r, s') \<Rightarrow> (case f s' of (Inl e, s'') \<Rightarrow> (Inl e, s'') | (Inr _, s'') \<Rightarrow> (r, s'')))"

subsection \<open>Console and driver primitives\<close>

definition console_log :: "console_arg list \<Rightarrow> unit io" where
  "console_log args = (\<lambda>s. (Inr (), s\<lparr>console := console s @ [(LOG, args)]\<rparr>))"

definition console_warn :: "console_arg list \<Rightarrow> unit io" where
  "console_warn args = (\<lambda>s. (Inr (), s\<lparr>console := console s @ [(WARN, args)]\<rparr>))"

definition console_error :: "console_arg list \<Rightarrow> unit io" where
  "console_error args = (\<lambda>s. (Inr (), s\<lparr>console := console s @ [(ERROR, args)]\<rparr>))"

text \<open>Issue one call to the driver: it is recorded, and the driver decides whether it throws.\<close>

definition driver_call :: "driver \<Rightarrow> event \<Rightarrow> unit io" where
  "driver_call d ev =
     (\<lambda>s. (case throws d (length (calls s)) of Some e \<Rightarrow> Inl e | None \<Rightarrow> Inr (),
           s\<lparr>calls := calls s @ [ev]\<rparr>))"

text \<open>\<open>new MongoClient(uri, opts)\<close>\<close>

definition new_MongoClient :: "driver \<Rightarrow> string \<Rightarrow> options \<Rightarrow> client io" where
  "new_MongoClient d uri opts =
     (\<lambda>s. io_bind (driver_call d (NewMongoClient uri opts))
             (\<lambda>_. io_return (MongoClient (length (calls s)) uri)) s)"

text \<open>\<open>client.topology?.isConnected()\<close>, as a truth value\<close>

definition topology_isConnected :: "driver \<Rightarrow> client \<Rightarrow> bool io" where
  "topology_isConnected d c =
     (\<lambda>s. (Inr (isConnected d (length (calls s)) c = Some True),
           s\<lparr>calls := calls s @ [IsConnected c]\<rparr>))"

text \<open>\<open>client.connect()\<close>, \<open>client.db().admin().ping()\<close>, \<open>client.close()\<close>\<close>

definition connect :: "driver \<Rightarrow> client \<Rightarrow> unit io" where
  "connect d c = driver_call d (Connect c)"

definition ping :: "driver \<Rightarrow> client \<Rightarrow> unit io" where
  "ping d c = driver_call d (Ping c)"

definition close :: "driver \<Rightarrow> client \<Rightarrow> unit io" where
  "close d c = driver_call d (Close c)"

definition namespace_of :: "db \<Rightarrow> string \<Rightarrow> namespace" where
  "namespace_of database name = (client_uri (db_client database), db_name database, name)"

text \<open>\<open>db.listCollections({ name }).toArray()\<close>: the names of the collections that match.\<close>

definition listCollections :: "driver \<Rightarrow> db \<Rightarrow> string \<Rightarrow> string list io" where
  "listCollections d database name =
     io_bind (driver_call d (ListCollections database name))
       (\<lambda>_ s. (Inr (case server s (namespace_of database name) of
                      None \<Rightarrow> [] | Some _ \<Rightarrow> [name]), s))"

text \<open>\<open>db.createCollection(name)\<close>: the server refuses a name it already has.\<close>

definition createCollection :: "driver \<Rightarrow> db \<Rightarrow> string \<Rightarrow> unit io" where
  "createCollection d database name =
     io_bind (driver_call d (CreateCollection database name))
       (\<lambda>_ s. case server s (namespace_of database name) of
                 Some _ \<Rightarrow> (Inl (Error ''Collection already exists''), s)
               | None \<Rightarrow> (Inr (), s\<lparr>server := (server s)(namespace_of database name \<mapsto> [])\<rparr>))"

text \<open>\<open>collection.createIndex(keys, opts)\<close>: on success the server has the index.\<close>

definition createIndex ::
  "driver \<Rightarrow> collection \<Rightarrow> (string \<times> key_kind) list \<Rightarrow> index_option list \<Rightarrow> unit io" where
  "createIndex d c keys opts =
     io_bind (driver_call d (CreateIndex c (keys, opts)))
       (\<lambda>_ s. let ns = namespace_of (collection_db c) (collection_name c) in
               (Inr (), s\<lparr>server := (server s)(ns \<mapsto>
                  (case server s ns of None \<Rightarrow> [] | Some ixs \<Rightarrow> ixs) @ [(keys, opts)])\<rparr>))"

subsection \<open>The module\<close>

definition client_options :: options where
  "client_options =
     \<lparr>maxPoolSize = 5, minPoolSize = 1, maxIdleTimeMS = 30000, connectTimeoutMS = 10000,
      socketTimeoutMS = 45000, serverSelectionTimeoutMS = 10000, retryWrites = True,
      w = ''majority'', useNewUrlParser = True, useUnifiedTopology = True\<rparr>"

definition set_cachedClient :: "client option \<Rightarrow> unit io" where
  "set_cachedClient v = (\<lambda>s. (Inr (), s\<lparr>cachedClient := v\<rparr>))"

definition set_cachedDb :: "db option \<Rightarrow> unit io" where
  "set_cachedDb v = (\<lambda>s. (Inr (), s\<lparr>cachedDb := v\<rparr>))"

text \<open>
  The \<open>try\<close> block of \<open>getMongoClient\<close> with its \<open>catch\<close>: check the connection
  string, construct a client, connect, ping, store the client.
\<close>

definition uri_missing :: "client io" where
  "uri_missing =
     io_then (console_error [Str ''MONGODB_URI environment variable is not set''])
       (io_throw (Error ''MONGODB_URI environment variable is required''))"

definition connect_and_cache :: "driver \<Rightarrow> string \<Rightarrow> client io" where
  "connect_and_cache d uri =
     io_then (console_log [Str ''Creating new MongoDB connection...''])
    (io_bind (new_MongoClient d uri client_options) (\<lambda>client.
     io_then (console_log [Str ''Attempting to connect to MongoDB...''])
    (io_then (connect d client)
    (io_then (console_log [Str ''MongoDB connected successfully''])
    (io_then (console_log [Str ''Pinging MongoDB...''])
    (io_then (ping d client)
    (io_then (console_log [Str ''MongoDB ping successful''])
    (io_then (set_cachedClient (Some client))
    (io_return client)))))))))"

definition getMongoClient_try :: "driver \<Rightarrow> env \<Rightarrow> client io" where
  "getMongoClient_try d env =
     try_catch
       (case MONGODB_URI env of
          None \<Rightarrow> uri_missing
        | Some uri \<Rightarrow> if uri = [] then uri_missing else connect_and_cache d uri)
       (\<lambda>error.
          io_then (console_error [Str ''Failed to connect to MongoDB:'', Err error])
         (io_then (console_error [Str ''Error stack:'', Stack error])
         (io_then (set_cachedClient None)
         (io_throw error))))"

text \<open>
  \<open>getMongoClient\<close>: the cached client when there is one and its probe says it is
  connected (the probe is not asked when there is none), the \<open>try\<close> block otherwise.
\<close>

definition getMongoClient :: "driver \<Rightarrow> env \<Rightarrow> client io" where
  "getMongoClient d env =
     (\<lambda>s. case cachedClient s of
        None \<Rightarrow> getMongoClient_try d env s
      | Some c \<Rightarrow>
          io_bind (topology_isConnected d c) (\<lambda>live.
            if live then
              io_then (console_log [Str ''Using cached MongoDB connection'']) (io_return c)
            else getMongoClient_try d env) s)"

definition getDatabase :: "driver \<Rightarrow> env \<Rightarrow> db io" where
  "getDatabase d env =
     try_catch
       (io_bind (getMongoClient d env) (\<lambda>client.
          let dbName = or_default (DATABASE_NAME env) ''donation_system'' in
          (\<lambda>s. case cachedDb s of
             None \<Rightarrow> io_then (set_cachedDb (Some (Db client dbName)))
                      (io_return (Db client dbName)) s
           | Some database \<Rightarrow> (Inr database, s))))
       (\<lambda>error.
          io_then (console_error [Str ''Failed to get database:'', Err error])
            (io_throw error))"

text \<open>\<open>createIndexes\<close>: eight \<open>await\<close>ed calls and a log line in one \<open>try\<close> block.\<close>

definition createIndexes :: "driver \<Rightarrow> collection \<Rightarrow> unit io" where
  "createIndexes d c =
     try_catch
       (io_block
          [createIndex d c [(''submittedAt'', Descending)] [],
           createIndex d c [(''name'', Ascending)] [],
           createIndex d c [(''project'', Ascending)] [],
           createIndex d c [(''payment'', Ascending)] [],
           createIndex d c [(''localId'', Ascending)] [Unique True, Sparse True],
           createIndex d c [(''deviceId'', Ascending)] [],
           createIndex d c [(''batchId'', Ascending)] [],
           createIndex d c
             [(''name'', Text), (''project'', Text), (''content'', Text), (''contact'', Text)]
             [Weights [(''name'', 10), (''project'', 5), (''content'', 3), (''contact'', 2)]],
           console_log [Str ''Collection indexes created successfully'']])
       (\<lambda>error. console_warn [Str ''Failed to create indexes:'', Str (message error)])"

definition getDonationCollection :: "driver \<Rightarrow> env \<Rightarrow> collection io" where
  "getDonationCollection d env =
     try_catch
       (io_bind (getDatabase d env) (\<lambda>database.
          let collectionName = or_default (COLLECTION_NAME env) ''donations'' in
          io_bind (listCollections d database collectionName) (\<lambda>collections.
          io_then
            (if length collections = 0 then
               io_then (console_log [Str (''Creating collection: '' @ collectionName)])
              (io_then (createCollection d database collectionName)
              (createIndexes d (Collection database collectionName)))
             else io_return ())
            (io_return (Collection database collectionName)))))
       (\<lambda>error.
          io_then (console_error [Str ''Failed to get collection:'', Err error])
            (io_throw error))"

text \<open>
  \<open>isValidObjectId\<close>. The regular expression \<open>/^[0-9a-fA-F]{24}$/\<close> has no flags:
  \<open>^\<close> and \<open>$\<close> are the two ends of the input.
\<close>

definition in_range :: "char \<Rightarrow> char \<Rightarrow> char \<Rightarrow> bool" where
  "in_range lo hi c = ((of_char lo :: nat) \<le> of_char c \<and> (of_char c :: nat) \<le> of_char hi)"

text \<open>The class \<open>[0-9a-fA-F]\<close>.\<close>

definition hex_class :: "char \<Rightarrow> bool" where
  "hex_class c =
     (in_range CHR ''0'' CHR ''9'' c \<or> in_range CHR ''a'' CHR ''f'' c \<or> in_range CHR ''A'' CHR ''F'' c)"

text \<open>\<open>[cls]{n}\<close> at the head of the input: what is left of the input after the match.\<close>

fun match_repeat :: "(char \<Rightarrow> bool) \<Rightarrow> nat \<Rightarrow> string \<Rightarrow> string option" where
  "match_repeat cls 0 s = Some s"
| "match_repeat cls (Suc n) [] = None"
| "match_repeat cls (Suc n) (c # s) = (if cls c then match_repeat cls n s else None)"

definition regex_test :: "string \<Rightarrow> bool" where
  "regex_test s = (case match_repeat hex_class 24 s of None \<Rightarrow> False | Some rest \<Rightarrow> rest = [])"

fun isValidObjectId :: "jsvalue \<Rightarrow> bool" where
  "isValidObjectId (String s) = regex_test s"
| "isValidObjectId _ = False"

definition closeMongoConnection :: "driver \<Rightarrow> unit io" where
  "closeMongoConnection d =
     (\<lambda>s. case cachedClient s of
        None \<Rightarrow> (Inr (), s)
      | Some c \<Rightarrow>
          try_catch_finally
            (io_then (close d c) (console_log [Str ''MongoDB connection closed'']))
            (\<lambda>error. console_error [Str ''Error closing MongoDB connection:'', Err error])
            (io_then (set_cachedClient None) (set_cachedDb None)) s)"

subsection \<open>Calling the module several times\<close>

text \<open>One call of \<open>getMongoClient\<close> per element of the list, each on the world the last left.\<close>

fun getMongoClient_calls :: "driver \<Rightarrow> env list \<Rightarrow> world \<Rightarrow> (error + client) list \<times> world" where
  "getMongoClient_calls d [] s = ([], s)"
| "getMongoClient_calls d (env # envs) s =
     (case getMongoClient d env s of
        (r, s') \<Rightarrow> (case getMongoClient_calls d envs s' of (rs, s'') \<Rightarrow> (r # rs, s'')))"

subsection \<open>Notions used to state the properties\<close>

text \<open>
  There is no live cached client: none is cached, or the probe of the cached one does
  not report it connected. \<open>after_probe\<close> is the world once the condition in the first
  line of \<open>getMongoClient\<close> has been evaluated to false.
\<close>

definition no_live_client :: "driver \<Rightarrow> world \<Rightarrow> bool" where
  "no_live_client d s =
     (case cachedClient s of
        None \<Rightarrow> True
      | Some c \<Rightarrow> isConnected d (length (calls s)) c \<noteq> Some True)"

definition after_probe :: "world \<Rightarrow> world" where
  "after_probe s =
     (case cachedClient s of
        None \<Rightarrow> s
      | Some c \<Rightarrow> s\<lparr>calls := calls s @ [IsConnected c]\<rparr>)"

text \<open>Concrete inputs: a process that has just started, and one that holds a client.\<close>

definition fresh_world :: world where
  "fresh_world =
     \<lparr>cachedClient = None, cachedDb = None, console = [], calls = [], server = Map.empty\<rparr>"

definition connected_world :: world where
  "connected_world =
     \<lparr>cachedClient = Some (MongoClient 0 ''valid''), cachedDb = None, console = [],
      calls = [NewMongoClient ''valid'' client_options, Connect (MongoClient 0 ''valid''),
               Ping (MongoClient 0 ''valid'')],
      server = Map.empty\<rparr>"

text \<open>A driver whose calls all resolve and whose clients always report connected.\<close>

definition reliable_driver :: driver where
  "reliable_driver = \<lparr>throws = (\<lambda>_. None), isConnected = (\<lambda>_ _. Some True)\<rparr>"

definition example_env :: env where
  "example_env =
     \<lparr>MONGODB_URI = Some ''valid'', DATABASE_NAME = Some ''testdb'',
      COLLECTION_NAME = Some ''donations''\<rparr>"

text \<open>A process whose cached database handle was derived from its cached client.\<close>

definition stale_db_world :: world where
  "stale_db_world = connected_world\<lparr>cachedDb := Some (Db (MongoClient 0 ''valid'') ''testdb'')\<rparr>"

text \<open>
  A driver whose clients report a dropped connection and whose sixth call is refused,
  and one whose second call is refused.
\<close>

definition dropped_driver :: driver where
  "dropped_driver =
     \<lparr>throws = (\<lambda>n. if n = 5 then Some (Error ''connection refused'') else None),
      isConnected = (\<lambda>_ _. Some False)\<rparr>"

definition refusing_driver :: driver where
  "refusing_driver =
     \<lparr>throws = (\<lambda>n. if n = 1 then Some (Error ''connection refused'') else None),
      isConnected = (\<lambda>_ _. Some True)\<rparr>"

text \<open>A driver whose eighth call fails: from a cold start, the third \<open>createIndex\<close>.\<close>

definition index_failing_driver :: driver where
  "index_failing_driver =
     \<lparr>throws = (\<lambda>n. if n = 7 then Some (Error ''index build failed'') else None),
      isConnected = (\<lambda>_ _. Some True)\<rparr>"

text \<open>The eight indexes of \<open>createIndexes\<close>, in the order of its calls.\<close>

definition donation_indexes :: "index list" where
  "donation_indexes =
     [([(''submittedAt'', Descending)], []),
      ([(''name'', Ascending)], []),
      ([(''project'', Ascending)], []),
      ([(''payment'', Ascending)], []),
      ([(''localId'', Ascending)], [Unique True, Sparse True]),
      ([(''deviceId'', Ascending)], []),
      ([(''batchId'', Ascending)], []),
      ([(''name'', Text), (''project'', Text), (''content'', Text), (''contact'', Text)],
       [Weights [(''name'', 10), (''project'', 5), (''content'', 3), (''contact'', 2)]])]"

text \<open>The indexes the server holds for a collection (none when it does not exist).\<close>

definition indexes_of :: "world \<Rightarrow> collection \<Rightarrow> index list" where
  "indexes_of s c =
     (case server s (namespace_of (collection_db c) (collection_name c)) of
        None \<Rightarrow> []
      | Some ixs \<Rightarrow> ixs)"

text \<open>
  An environment that names another database, and a process whose server already has
  the (empty) collection.
\<close>

definition other_env :: env where
  "other_env = example_env\<lparr>DATABASE_NAME := Some ''other''\<rparr>"

definition collection_world :: world where
  "collection_world =
     stale_db_world\<lparr>server := [(''valid'', ''testdb'', ''donations'') \<mapsto> []]\<rparr>"

section \<open>Properties\<close>

subsection \<open>Running the primitives\<close>

lemmas io_defs = io_return_def io_throw_def io_bind_def io_then_def try_catch_def
  try_catch_finally_def console_log_def console_warn_def console_error_def driver_call_def
  new_MongoClient_def topology_isConnected_def connect_def ping_def close_def
  set_cachedClient_def set_cachedDb_def

lemmas example_defs = fresh_world_def connected_world_def reliable_driver_def example_env_def

lemmas run_defs = getMongoClient_def getMongoClient_try_def connect_and_cache_def
  uri_missing_def io_defs

lemmas module_defs = run_defs getDatabase_def getDonationCollection_def createIndexes_def
  listCollections_def createCollection_def createIndex_def closeMongoConnection_def
  namespace_of_def Let_def

subsection \<open>\<open>getMongoClient\<close>\<close>

lemma getMongoClient_live:
  "cachedClient s = Some c \<Longrightarrow> isConnected d (length (calls s)) c = Some True \<Longrightarrow>
   getMongoClient d env s =
     (Inr c, s\<lparr>calls := calls s @ [IsConnected c],
               console := console s @ [(LOG, [Str ''Using cached MongoDB connection''])]\<rparr>)"
  by (simp add: getMongoClient_def io_defs)

lemma getMongoClient_not_live:
  "no_live_client d s \<Longrightarrow> getMongoClient d env s = getMongoClient_try d env (after_probe s)"
  by (simp add: getMongoClient_def no_live_client_def after_probe_def io_defs
      split: option.splits)

lemma live_or_not:
  "no_live_client d s \<or>
   (\<exists>c. cachedClient s = Some c \<and> isConnected d (length (calls s)) c = Some True)"
  by (auto simp: no_live_client_def split: option.splits)

text \<open>What the \<open>try\<close> block never touches, and what it leaves in \<open>cachedClient\<close>.\<close>

lemma getMongoClient_try_frame:
  "getMongoClient_try d env s = (r, s') \<Longrightarrow>
     cachedDb s' = cachedDb s \<and> server s' = server s \<and>
     filter is_creation (calls s') = filter is_creation (calls s) \<and>
     (case r of Inl _ \<Rightarrow> cachedClient s' = None | Inr c \<Rightarrow> cachedClient s' = Some c)"
  by (auto simp: getMongoClient_try_def uri_missing_def connect_and_cache_def io_defs
      split: option.splits if_splits prod.splits sum.splits)

lemma getMongoClient_frame:
  assumes "getMongoClient d env s = (r, s')"
  shows "cachedDb s' = cachedDb s \<and> server s' = server s \<and>
     filter is_creation (calls s') = filter is_creation (calls s) \<and>
     (case r of Inl _ \<Rightarrow> cachedClient s' = None | Inr c \<Rightarrow> cachedClient s' = Some c)"
proof (cases "no_live_client d s")
  case True
  with assms have "getMongoClient_try d env (after_probe s) = (r, s')"
    by (simp add: getMongoClient_not_live)
  from getMongoClient_try_frame [OF this] show ?thesis
    by (simp add: after_probe_def split: option.splits)
next
  case False
  with live_or_not [of d s] obtain c
    where c: "cachedClient s = Some c" "isConnected d (length (calls s)) c = Some True"
    by auto
  from getMongoClient_live [OF c, of env] assms show ?thesis
    using c by auto
qed

lemma getMongoClient_try_success:
  assumes "MONGODB_URI env = Some uri" and "uri \<noteq> []"
    and "throws d (length (calls s)) = None"
    and "throws d (Suc (length (calls s))) = None"
    and "throws d (Suc (Suc (length (calls s)))) = None"
  shows "getMongoClient_try d env s =
     (Inr (MongoClient (length (calls s)) uri),
      s\<lparr>cachedClient := Some (MongoClient (length (calls s)) uri),
        calls := calls s @ [NewMongoClient uri client_options,
          Connect (MongoClient (length (calls s)) uri),
          Ping (MongoClient (length (calls s)) uri)],
        console := console s @
          [(LOG, [Str ''Creating new MongoDB connection...'']),
           (LOG, [Str ''Attempting to connect to MongoDB...'']),
           (LOG, [Str ''MongoDB connected successfully'']),
           (LOG, [Str ''Pinging MongoDB...'']),
           (LOG, [Str ''MongoDB ping successful''])]\<rparr>)"
  using assms by (simp add: getMongoClient_try_def connect_and_cache_def io_defs)

lemma getMongoClient_calls_live:
  assumes "cachedClient s = Some c"
    and "\<forall>n\<ge>length (calls s). isConnected d n c = Some True"
  shows "getMongoClient_calls d envs s =
     (replicate (length envs) (Inr c),
      s\<lparr>calls := calls s @ replicate (length envs) (IsConnected c),
        console := console s @
          replicate (length envs) (LOG, [Str ''Using cached MongoDB connection''])\<rparr>)"
  using assms
proof (induction envs arbitrary: s)
  case Nil
  then show ?case by simp
next
  case (Cons env envs)
  let ?s1 = "s\<lparr>calls := calls s @ [IsConnected c],
               console := console s @ [(LOG, [Str ''Using cached MongoDB connection''])]\<rparr>"
  have first: "getMongoClient d env s = (Inr c, ?s1)"
    using Cons.prems by (simp add: getMongoClient_live)
  have "cachedClient ?s1 = Some c"
    using Cons.prems by simp
  moreover have "\<forall>n\<ge>length (calls ?s1). isConnected d n c = Some True"
    using Cons.prems by simp
  ultimately have rest: "getMongoClient_calls d envs ?s1 =
     (replicate (length envs) (Inr c),
      ?s1\<lparr>calls := calls ?s1 @ replicate (length envs) (IsConnected c),
        console := console ?s1 @
          replicate (length envs) (LOG, [Str ''Using cached MongoDB connection''])\<rparr>)"
    by (rule Cons.IH)
  show ?case by (simp add: first rest)
qed

text \<open>
  C1. When a client is cached and its probe reports it connected, \<open>getMongoClient\<close>
  returns that client, and the only thing it does is ask the probe and write one log
  line: no driver call goes to the server. So it is for any number of calls in a row
  while the client stays live, whatever their \<open>env\<close>. From a cold start with a
  connection string, with the constructor, \<open>connect\<close> and \<open>ping\<close> succeeding and the
  client live from then on, every call of the sequence returns the client the first
  call made, and the calls that went to the server are the \<open>connect\<close> and the \<open>ping\<close>
  of the first call, nothing else.
\<close>

theorem getMongoClient_returns_live_cached_client:
  "(cachedClient s = Some c \<and> isConnected d (length (calls s)) c = Some True \<longrightarrow>
      getMongoClient d env s =
        (Inr c, s\<lparr>calls := calls s @ [IsConnected c],
                  console := console s @ [(LOG, [Str ''Using cached MongoDB connection''])]\<rparr>))
   \<and> (cachedClient s = Some c \<and> (\<forall>n\<ge>length (calls s). isConnected d n c = Some True) \<longrightarrow>
      (case getMongoClient_calls d envs s of (rs, s') \<Rightarrow>
         rs = replicate (length envs) (Inr c) \<and> cachedClient s' = Some c \<and>
         filter is_network (calls s') = filter is_network (calls s)))
   \<and> (cachedClient s = None \<and> MONGODB_URI env = Some uri \<and> uri \<noteq> [] \<and>
       (\<forall>n<3. throws d (length (calls s) + n) = None) \<and>
       (\<forall>n\<ge>length (calls s).
          isConnected d n (MongoClient (length (calls s)) uri) = Some True) \<longrightarrow>
      (case getMongoClient_calls d (env # envs) s of (rs, s') \<Rightarrow>
         rs = replicate (Suc (length envs)) (Inr (MongoClient (length (calls s)) uri)) \<and>
         cachedClient s' = Some (MongoClient (length (calls s)) uri) \<and>
         filter is_network (calls s') =
           filter is_network (calls s) @
             [Connect (MongoClient (length (calls s)) uri),
              Ping (MongoClient (length (calls s)) uri)]))"
proof (intro conjI impI)
  assume "cachedClient s = Some c \<and> isConnected d (length (calls s)) c = Some True"
  then show "getMongoClient d env s =
        (Inr c, s\<lparr>calls := calls s @ [IsConnected c],
                  console := console s @ [(LOG, [Str ''Using cached MongoDB connection''])]\<rparr>)"
    by (simp add: getMongoClient_live)
next
  assume "cachedClient s = Some c \<and> (\<forall>n\<ge>length (calls s). isConnected d n c = Some True)"
  then show "case getMongoClient_calls d envs s of (rs, s') \<Rightarrow>
         rs = replicate (length envs) (Inr c) \<and> cachedClient s' = Some c \<and>
         filter is_network (calls s') = filter is_network (calls s)"
    by (simp add: getMongoClient_calls_live)
next
  let ?c = "MongoClient (length (calls s)) uri"
  assume a: "cachedClient s = None \<and> MONGODB_URI env = Some uri \<and> uri \<noteq> [] \<and>
       (\<forall>n<3. throws d (length (calls s) + n) = None) \<and>
       (\<forall>n\<ge>length (calls s). isConnected d n ?c = Some True)"
  then have ok: "\<forall>n<3. throws d (length (calls s) + n) = None"
    by simp
  have t: "throws d (length (calls s)) = None" "throws d (Suc (length (calls s))) = None"
    "throws d (Suc (Suc (length (calls s)))) = None"
    using ok [rule_format, of 0] ok [rule_format, of 1] ok [rule_format, of 2] by simp_all
  obtain s1 where first: "getMongoClient d env s = (Inr ?c, s1)"
    and s1: "cachedClient s1 = Some ?c"
      "calls s1 = calls s @ [NewMongoClient uri client_options, Connect ?c, Ping ?c]"
    using a t by (simp add: getMongoClient_def getMongoClient_try_success)
  have "\<forall>n\<ge>length (calls s1). isConnected d n ?c = Some True"
    using a s1 by simp
  from getMongoClient_calls_live [OF s1(1) this, of envs]
  show "case getMongoClient_calls d (env # envs) s of (rs, s') \<Rightarrow>
         rs = replicate (Suc (length envs)) (Inr ?c) \<and>
         cachedClient s' = Some ?c \<and>
         filter is_network (calls s') = filter is_network (calls s) @ [Connect ?c, Ping ?c]"
    by (simp add: first s1)
qed

theorem getMongoClient_returns_live_cached_client_witness:
  "cachedClient connected_world = Some (MongoClient 0 ''valid'') \<and>
   isConnected reliable_driver (length (calls connected_world)) (MongoClient 0 ''valid'') =
     Some True \<and>
   getMongoClient reliable_driver example_env connected_world =
     (Inr (MongoClient 0 ''valid''),
      connected_world\<lparr>calls := calls connected_world @ [IsConnected (MongoClient 0 ''valid'')],
        console := [(LOG, [Str ''Using cached MongoDB connection''])]\<rparr>) \<and>
   fst (getMongoClient_calls reliable_driver [example_env, example_env] connected_world) =
     [Inr (MongoClient 0 ''valid''), Inr (MongoClient 0 ''valid'')] \<and>
   cachedClient fresh_world = None \<and> MONGODB_URI example_env = Some ''valid'' \<and>
   throws reliable_driver (length (calls fresh_world)) = None \<and>
   (case getMongoClient_calls reliable_driver [example_env, example_env, example_env] fresh_world
    of (rs, s') \<Rightarrow>
      rs = [Inr (MongoClient 0 ''valid''), Inr (MongoClient 0 ''valid''),
            Inr (MongoClient 0 ''valid'')] \<and>
      filter is_network (calls s') =
        [Connect (MongoClient 0 ''valid''), Ping (MongoClient 0 ''valid'')])"
  using getMongoClient_returns_live_cached_client
    [where s = connected_world and c = "MongoClient 0 ''valid''" and d = reliable_driver
       and env = example_env and envs = "[example_env, example_env]" and uri = "''valid''"]
    getMongoClient_returns_live_cached_client
    [where s = fresh_world and c = "MongoClient 0 ''valid''" and d = reliable_driver
       and env = example_env and envs = "[example_env, example_env]" and uri = "''valid''"]
  by (simp add: example_defs split: prod.splits)

lemma getMongoClient_try_missing:
  "\<not> truthy (MONGODB_URI env) \<Longrightarrow>
   getMongoClient_try d env s =
     (Inl (Error ''MONGODB_URI environment variable is required''),
      s\<lparr>cachedClient := None,
        console := console s @
          [(ERROR, [Str ''MONGODB_URI environment variable is not set'']),
           (ERROR, [Str ''Failed to connect to MongoDB:'',
                    Err (Error ''MONGODB_URI environment variable is required'')]),
           (ERROR, [Str ''Error stack:'',
                    Stack (Error ''MONGODB_URI environment variable is required'')])]\<rparr>)"
  by (cases "MONGODB_URI env") (simp_all add: getMongoClient_try_def uri_missing_def io_defs)

lemma getMongoClient_cold:
  "cachedClient s = None \<Longrightarrow> getMongoClient d env s = getMongoClient_try d env s"
  by (simp add: getMongoClient_def)

lemma getMongoClient_try_attempt:
  assumes "MONGODB_URI env = Some uri" and "uri \<noteq> []"
    and "getMongoClient_try d env s = (r, s')"
  shows "take 1 (drop (length (calls s)) (calls s')) = [NewMongoClient uri client_options] \<and>
     (throws d (length (calls s)) = None \<longrightarrow>
        take 2 (drop (length (calls s)) (calls s')) =
          [NewMongoClient uri client_options, Connect (MongoClient (length (calls s)) uri)]) \<and>
     (\<forall>c. r = Inr c \<longrightarrow> c = MongoClient (length (calls s)) uri)"
  using assms
  by (auto simp: getMongoClient_try_def connect_and_cache_def io_defs
      split: option.splits if_splits prod.splits sum.splits)

lemma getMongoClient_try_connect_fails:
  assumes "MONGODB_URI env = Some uri" and "uri \<noteq> []"
    and "throws d (length (calls s)) = None"
    and "throws d (Suc (length (calls s))) = Some e"
  shows "getMongoClient_try d env s =
     (Inl e,
      s\<lparr>cachedClient := None,
        calls := calls s @ [NewMongoClient uri client_options,
          Connect (MongoClient (length (calls s)) uri)],
        console := console s @
          [(LOG, [Str ''Creating new MongoDB connection...'']),
           (LOG, [Str ''Attempting to connect to MongoDB...'']),
           (ERROR, [Str ''Failed to connect to MongoDB:'', Err e]),
           (ERROR, [Str ''Error stack:'', Stack e])]\<rparr>)"
  using assms by (simp add: getMongoClient_try_def connect_and_cache_def io_defs)

lemma getMongoClient_try_ping_fails:
  assumes "MONGODB_URI env = Some uri" and "uri \<noteq> []"
    and "throws d (length (calls s)) = None"
    and "throws d (Suc (length (calls s))) = None"
    and "throws d (Suc (Suc (length (calls s)))) = Some e"
  shows "getMongoClient_try d env s =
     (Inl e,
      s\<lparr>cachedClient := None,
        calls := calls s @ [NewMongoClient uri client_options,
          Connect (MongoClient (length (calls s)) uri),
          Ping (MongoClient (length (calls s)) uri)],
        console := console s @
          [(LOG, [Str ''Creating new MongoDB connection...'']),
           (LOG, [Str ''Attempting to connect to MongoDB...'']),
           (LOG, [Str ''MongoDB connected successfully'']),
           (LOG, [Str ''Pinging MongoDB...'']),
           (ERROR, [Str ''Failed to connect to MongoDB:'', Err e]),
           (ERROR, [Str ''Error stack:'', Stack e])]\<rparr>)"
  using assms by (simp add: getMongoClient_try_def connect_and_cache_def io_defs)

text \<open>
  C2. With a connection string that the constructor accepts and no live cached client,
  when \<open>connect\<close> rejects, or \<open>connect\<close> resolves and \<open>ping\<close> rejects,
  \<open>getMongoClient\<close> throws that same error and leaves \<open>cachedClient\<close> empty. The
  next call then does not return the client of the failed attempt: it starts by
  constructing a new client and, when the constructor accepts, calls \<open>connect\<close> on it.
\<close>

theorem getMongoClient_connect_failure_clears_cache:
  assumes live: "no_live_client d s"
    and uri: "MONGODB_URI env = Some uri" "uri \<noteq> []"
    and new: "throws d (length (calls (after_probe s))) = None"
    and fail: "throws d (Suc (length (calls (after_probe s)))) = Some e \<or>
      (throws d (Suc (length (calls (after_probe s)))) = None \<and>
       throws d (Suc (Suc (length (calls (after_probe s))))) = Some e)"
  shows "case getMongoClient d env s of (r, s') \<Rightarrow>
     r = Inl e \<and> cachedClient s' = None \<and>
     (case getMongoClient d env s' of (r', s'') \<Rightarrow>
        r' \<noteq> Inr (MongoClient (length (calls (after_probe s))) uri) \<and>
        take 1 (drop (length (calls s')) (calls s'')) = [NewMongoClient uri client_options] \<and>
        (throws d (length (calls s')) = None \<longrightarrow>
           take 2 (drop (length (calls s')) (calls s'')) =
             [NewMongoClient uri client_options,
              Connect (MongoClient (length (calls s')) uri)]))"
proof -
  let ?p = "after_probe s"
  obtain s' where first: "getMongoClient d env s = (Inl e, s')"
    and cleared: "cachedClient s' = None"
    and longer: "length (calls ?p) < length (calls s')"
  proof (cases "throws d (Suc (length (calls ?p))) = Some e")
    case True
    from getMongoClient_try_connect_fails [OF uri new True] live that show ?thesis
      by (simp add: getMongoClient_not_live)
  next
    case False
    with fail have "throws d (Suc (length (calls ?p))) = None"
      and "throws d (Suc (Suc (length (calls ?p)))) = Some e"
      by simp_all
    from getMongoClient_try_ping_fails [OF uri new this] live that show ?thesis
      by (simp add: getMongoClient_not_live)
  qed
  obtain r' s'' where second: "getMongoClient d env s' = (r', s'')"
    by (cases "getMongoClient d env s'")
  with cleared have "getMongoClient_try d env s' = (r', s'')"
    by (simp add: getMongoClient_cold)
  from getMongoClient_try_attempt [OF uri this] longer
  have "r' \<noteq> Inr (MongoClient (length (calls ?p)) uri) \<and>
        take 1 (drop (length (calls s')) (calls s'')) = [NewMongoClient uri client_options] \<and>
        (throws d (length (calls s')) = None \<longrightarrow>
           take 2 (drop (length (calls s')) (calls s'')) =
             [NewMongoClient uri client_options,
              Connect (MongoClient (length (calls s')) uri)])"
    by auto
  with first cleared second show ?thesis
    by simp
qed

theorem getMongoClient_connect_failure_clears_cache_witness:
  "no_live_client refusing_driver fresh_world \<and>
   throws refusing_driver (length (calls (after_probe fresh_world))) = None \<and>
   throws refusing_driver (Suc (length (calls (after_probe fresh_world)))) =
     Some (Error ''connection refused'') \<and>
   (case getMongoClient refusing_driver example_env fresh_world of (r, s') \<Rightarrow>
      r = Inl (Error ''connection refused'') \<and> cachedClient s' = None \<and>
      (case getMongoClient refusing_driver example_env s' of (r', s'') \<Rightarrow>
         r' \<noteq> Inr (MongoClient (length (calls (after_probe fresh_world))) ''valid'') \<and>
         take 1 (drop (length (calls s')) (calls s'')) =
           [NewMongoClient ''valid'' client_options])) \<and>
   calls (snd (getMongoClient refusing_driver example_env
      (snd (getMongoClient refusing_driver example_env fresh_world)))) =
     [NewMongoClient ''valid'' client_options, Connect (MongoClient 0 ''valid''),
      NewMongoClient ''valid'' client_options, Connect (MongoClient 2 ''valid''),
      Ping (MongoClient 2 ''valid'')]"
proof -
  have hyps: "no_live_client refusing_driver fresh_world"
    "MONGODB_URI example_env = Some ''valid''" "''valid'' \<noteq> []"
    "throws refusing_driver (length (calls (after_probe fresh_world))) = None"
    "throws refusing_driver (Suc (length (calls (after_probe fresh_world)))) =
       Some (Error ''connection refused'') \<or>
     (throws refusing_driver (Suc (length (calls (after_probe fresh_world)))) = None \<and>
      throws refusing_driver (Suc (Suc (length (calls (after_probe fresh_world))))) =
        Some (Error ''connection refused''))"
    by (simp_all add: example_defs refusing_driver_def no_live_client_def after_probe_def)
  have third: "throws refusing_driver (Suc (length (calls (after_probe fresh_world)))) =
     Some (Error ''connection refused'')"
    by (simp add: example_defs refusing_driver_def after_probe_def)
  have run: "calls (snd (getMongoClient refusing_driver example_env
      (snd (getMongoClient refusing_driver example_env fresh_world)))) =
     [NewMongoClient ''valid'' client_options, Connect (MongoClient 0 ''valid''),
      NewMongoClient ''valid'' client_options, Connect (MongoClient 2 ''valid''),
      Ping (MongoClient 2 ''valid'')]"
    by (simp add: run_defs example_defs refusing_driver_def)
  from getMongoClient_connect_failure_clears_cache [OF hyps]
  have "case getMongoClient refusing_driver example_env fresh_world of (r, s') \<Rightarrow>
      r = Inl (Error ''connection refused'') \<and> cachedClient s' = None \<and>
      (case getMongoClient refusing_driver example_env s' of (r', s'') \<Rightarrow>
         r' \<noteq> Inr (MongoClient (length (calls (after_probe fresh_world))) ''valid'') \<and>
         take 1 (drop (length (calls s')) (calls s'')) =
           [NewMongoClient ''valid'' client_options])"
    by (auto split: prod.splits)
  with hyps(1,4) third run show ?thesis
    by (intro conjI)
qed

text \<open>
  C6. When \<open>MONGODB_URI\<close> is not set (or is the empty string) and there is no live
  cached client, \<open>getMongoClient\<close> throws the error
  \<open>MONGODB_URI environment variable is required\<close>. The driver calls are those made
  before the check (the probe of a cached client, if one was cached): no client is
  constructed, no \<open>connect\<close> and no \<open>ping\<close> is issued.
\<close>

theorem getMongoClient_missing_uri_fails_before_network:
  assumes "\<not> truthy (MONGODB_URI env)" and "no_live_client d s"
  shows "getMongoClient d env s =
     (Inl (Error ''MONGODB_URI environment variable is required''),
      (after_probe s)\<lparr>cachedClient := None,
        console := console s @
          [(ERROR, [Str ''MONGODB_URI environment variable is not set'']),
           (ERROR, [Str ''Failed to connect to MongoDB:'',
                    Err (Error ''MONGODB_URI environment variable is required'')]),
           (ERROR, [Str ''Error stack:'',
                    Stack (Error ''MONGODB_URI environment variable is required'')])]\<rparr>)
   \<and> calls (snd (getMongoClient d env s)) = calls (after_probe s)
   \<and> filter is_network (calls (snd (getMongoClient d env s))) = filter is_network (calls s)"
  using assms
  by (simp add: getMongoClient_not_live getMongoClient_try_missing after_probe_def
      split: option.splits)

theorem getMongoClient_missing_uri_fails_before_network_witness:
  "\<not> truthy (MONGODB_URI (example_env\<lparr>MONGODB_URI := None\<rparr>)) \<and>
   no_live_client dropped_driver connected_world \<and>
   fst (getMongoClient dropped_driver (example_env\<lparr>MONGODB_URI := None\<rparr>) connected_world) =
     Inl (Error ''MONGODB_URI environment variable is required'') \<and>
   calls (snd (getMongoClient dropped_driver (example_env\<lparr>MONGODB_URI := None\<rparr>) connected_world)) =
     [NewMongoClient ''valid'' client_options, Connect (MongoClient 0 ''valid''),
      Ping (MongoClient 0 ''valid''), IsConnected (MongoClient 0 ''valid'')] \<and>
   calls (snd (getMongoClient reliable_driver (example_env\<lparr>MONGODB_URI := None\<rparr>) fresh_world)) = []"
  using getMongoClient_missing_uri_fails_before_network
    [of "example_env\<lparr>MONGODB_URI := None\<rparr>" dropped_driver connected_world]
    getMongoClient_missing_uri_fails_before_network
    [of "example_env\<lparr>MONGODB_URI := None\<rparr>" reliable_driver fresh_world]
  by (simp add: example_defs dropped_driver_def no_live_client_def after_probe_def)

text \<open>
  C10. \<open>getMongoClient\<close> never assigns \<open>cachedDb\<close>: when it throws, \<open>cachedClient\<close>
  is empty and \<open>cachedDb\<close> holds what it held before the call, so a handle derived
  from the client that was dropped stays in the cache.
\<close>

theorem getMongoClient_failure_keeps_cachedDb:
  "getMongoClient d env s = (Inl e, s') \<longrightarrow> cachedClient s' = None \<and> cachedDb s' = cachedDb s"
  using getMongoClient_frame [of d env s "Inl e" s'] by simp

theorem getMongoClient_failure_keeps_cachedDb_witness:
  "getMongoClient dropped_driver example_env stale_db_world =
     (Inl (Error ''connection refused''),
      snd (getMongoClient dropped_driver example_env stale_db_world)) \<and>
   cachedClient (snd (getMongoClient dropped_driver example_env stale_db_world)) = None \<and>
   cachedDb (snd (getMongoClient dropped_driver example_env stale_db_world)) =
     Some (Db (MongoClient 0 ''valid'') ''testdb'')"
proof -
  have run: "getMongoClient dropped_driver example_env stale_db_world =
     (Inl (Error ''connection refused''),
      snd (getMongoClient dropped_driver example_env stale_db_world))"
    by (simp add: getMongoClient_def getMongoClient_try_def connect_and_cache_def io_defs
        example_defs stale_db_world_def dropped_driver_def)
  from getMongoClient_failure_keeps_cachedDb [THEN mp, OF run] run show ?thesis
    by (simp add: stale_db_world_def connected_world_def)
qed

subsection \<open>\<open>closeMongoConnection\<close>\<close>

lemma closeMongoConnection_some:
  "cachedClient s = Some c \<Longrightarrow>
   closeMongoConnection d s =
     (Inr (),
      s\<lparr>cachedClient := None, cachedDb := None, calls := calls s @ [Close c],
        console := console s @
          [case throws d (length (calls s)) of
             None \<Rightarrow> (LOG, [Str ''MongoDB connection closed''])
           | Some e \<Rightarrow> (ERROR, [Str ''Error closing MongoDB connection:'', Err e])]\<rparr>)"
  by (simp add: closeMongoConnection_def io_defs split: option.splits)

lemma closeMongoConnection_none:
  "cachedClient s = None \<Longrightarrow> closeMongoConnection d s = (Inr (), s)"
  by (simp add: closeMongoConnection_def)

lemma closeMongoConnection_clears:
  "cachedClient (snd (closeMongoConnection d s)) = None"
  by (cases "cachedClient s") (simp_all add: closeMongoConnection_some closeMongoConnection_none)

text \<open>
  C7. With a cached client, \<open>closeMongoConnection\<close> calls \<open>close\<close> on it, logs the
  success or the error, never throws, and leaves both \<open>cachedClient\<close> and \<open>cachedDb\<close>
  empty. With no cached client it changes nothing. After it, a \<open>getMongoClient\<close> with
  a connection string starts by constructing a new client, returns no other client
  than that one, and when constructor, \<open>connect\<close> and \<open>ping\<close> succeed it returns it
  after exactly these three driver calls.
\<close>

theorem closeMongoConnection_scoped_teardown:
  "(cachedClient s = Some c \<longrightarrow>
      closeMongoConnection d s =
        (Inr (),
         s\<lparr>cachedClient := None, cachedDb := None, calls := calls s @ [Close c],
           console := console s @
             [case throws d (length (calls s)) of
                None \<Rightarrow> (LOG, [Str ''MongoDB connection closed''])
              | Some e \<Rightarrow> (ERROR, [Str ''Error closing MongoDB connection:'', Err e])]\<rparr>))
   \<and> (cachedClient s = None \<longrightarrow> closeMongoConnection d s = (Inr (), s))
   \<and> (MONGODB_URI env = Some uri \<and> uri \<noteq> [] \<longrightarrow>
       (case closeMongoConnection d s of (r, s') \<Rightarrow>
          cachedClient s' = None \<and>
          (case getMongoClient d env s' of (r', s'') \<Rightarrow>
             take 1 (drop (length (calls s')) (calls s'')) =
               [NewMongoClient uri client_options] \<and>
             (\<forall>c'. r' = Inr c' \<longrightarrow> c' = MongoClient (length (calls s')) uri) \<and>
             ((\<forall>n<3. throws d (length (calls s') + n) = None) \<longrightarrow>
                r' = Inr (MongoClient (length (calls s')) uri) \<and>
                calls s'' = calls s' @
                  [NewMongoClient uri client_options,
                   Connect (MongoClient (length (calls s')) uri),
                   Ping (MongoClient (length (calls s')) uri)]))))"
proof (intro conjI impI)
  assume "cachedClient s = Some c"
  then show "closeMongoConnection d s =
        (Inr (),
         s\<lparr>cachedClient := None, cachedDb := None, calls := calls s @ [Close c],
           console := console s @
             [case throws d (length (calls s)) of
                None \<Rightarrow> (LOG, [Str ''MongoDB connection closed''])
              | Some e \<Rightarrow> (ERROR, [Str ''Error closing MongoDB connection:'', Err e])]\<rparr>)"
    by (rule closeMongoConnection_some)
next
  assume "cachedClient s = None"
  then show "closeMongoConnection d s = (Inr (), s)"
    by (rule closeMongoConnection_none)
next
  assume uri: "MONGODB_URI env = Some uri \<and> uri \<noteq> []"
  obtain r s' where closed: "closeMongoConnection d s = (r, s')"
    by (cases "closeMongoConnection d s")
  with closeMongoConnection_clears [of d s] have cleared: "cachedClient s' = None"
    by simp
  obtain r' s'' where next_call: "getMongoClient d env s' = (r', s'')"
    by (cases "getMongoClient d env s'")
  with cleared have run: "getMongoClient_try d env s' = (r', s'')"
    by (simp add: getMongoClient_cold)
  have attempt: "take 1 (drop (length (calls s')) (calls s'')) =
      [NewMongoClient uri client_options] \<and>
      (\<forall>c'. r' = Inr c' \<longrightarrow> c' = MongoClient (length (calls s')) uri)"
    using getMongoClient_try_attempt [OF _ _ run, of uri] uri by simp
  have full: "r' = Inr (MongoClient (length (calls s')) uri) \<and>
      calls s'' = calls s' @
        [NewMongoClient uri client_options,
         Connect (MongoClient (length (calls s')) uri),
         Ping (MongoClient (length (calls s')) uri)]"
    if ok: "\<forall>n<3. throws d (length (calls s') + n) = None"
  proof -
    have "throws d (length (calls s')) = None" "throws d (Suc (length (calls s'))) = None"
      "throws d (Suc (Suc (length (calls s')))) = None"
      using ok [rule_format, of 0] ok [rule_format, of 1] ok [rule_format, of 2] by simp_all
    from getMongoClient_try_success [OF _ _ this, of env uri] uri run show ?thesis
      by auto
  qed
  show "case closeMongoConnection d s of (r, s') \<Rightarrow>
          cachedClient s' = None \<and>
          (case getMongoClient d env s' of (r', s'') \<Rightarrow>
             take 1 (drop (length (calls s')) (calls s'')) =
               [NewMongoClient uri client_options] \<and>
             (\<forall>c'. r' = Inr c' \<longrightarrow> c' = MongoClient (length (calls s')) uri) \<and>
             ((\<forall>n<3. throws d (length (calls s') + n) = None) \<longrightarrow>
                r' = Inr (MongoClient (length (calls s')) uri) \<and>
                calls s'' = calls s' @
                  [NewMongoClient uri client_options,
                   Connect (MongoClient (length (calls s')) uri),
                   Ping (MongoClient (length (calls s')) uri)]))"
    unfolding closed next_call prod.case
    using cleared attempt full by blast
qed

theorem closeMongoConnection_scoped_teardown_witness:
  "cachedClient stale_db_world = Some (MongoClient 0 ''valid'') \<and>
   closeMongoConnection dropped_driver stale_db_world =
     (Inr (),
      stale_db_world\<lparr>cachedClient := None, cachedDb := None,
        calls := calls stale_db_world @ [Close (MongoClient 0 ''valid'')],
        console := [(LOG, [Str ''MongoDB connection closed''])]\<rparr>) \<and>
   cachedClient fresh_world = None \<and>
   closeMongoConnection dropped_driver fresh_world = (Inr (), fresh_world) \<and>
   MONGODB_URI example_env = Some ''valid'' \<and>
   (case closeMongoConnection reliable_driver stale_db_world of (r, s') \<Rightarrow>
      cachedClient s' = None \<and>
      (case getMongoClient reliable_driver example_env s' of (r', s'') \<Rightarrow>
         r' = Inr (MongoClient (length (calls s')) ''valid'') \<and>
         calls s'' = calls s' @
           [NewMongoClient ''valid'' client_options,
            Connect (MongoClient (length (calls s')) ''valid''),
            Ping (MongoClient (length (calls s')) ''valid'')]))"
proof -
  have cached: "cachedClient stale_db_world = Some (MongoClient 0 ''valid'')"
    and cold: "cachedClient fresh_world = None"
    and uri: "MONGODB_URI example_env = Some ''valid'' \<and> ''valid'' \<noteq> []"
    by (simp_all add: example_defs stale_db_world_def)
  note teardown = closeMongoConnection_scoped_teardown
  from teardown [of stale_db_world _ dropped_driver] cached
  have one: "closeMongoConnection dropped_driver stale_db_world =
     (Inr (),
      stale_db_world\<lparr>cachedClient := None, cachedDb := None,
        calls := calls stale_db_world @ [Close (MongoClient 0 ''valid'')],
        console := [(LOG, [Str ''MongoDB connection closed''])]\<rparr>)"
    by (simp add: example_defs stale_db_world_def dropped_driver_def)
  from teardown [of fresh_world _ dropped_driver] cold
  have two: "closeMongoConnection dropped_driver fresh_world = (Inr (), fresh_world)"
    by simp
  obtain r s' where closed: "closeMongoConnection reliable_driver stale_db_world = (r, s')"
    by (cases "closeMongoConnection reliable_driver stale_db_world")
  obtain r' s'' where next_call: "getMongoClient reliable_driver example_env s' = (r', s'')"
    by (cases "getMongoClient reliable_driver example_env s'")
  have ok: "\<forall>n<3. throws reliable_driver (length (calls s') + n) = None"
    by (simp add: reliable_driver_def)
  note third = teardown [of stale_db_world "MongoClient 0 ''valid''" reliable_driver
    example_env "''valid''", THEN conjunct2, THEN conjunct2, THEN mp, OF uri]
  from third ok have three: "case closeMongoConnection reliable_driver stale_db_world of (r, s') \<Rightarrow>
      cachedClient s' = None \<and>
      (case getMongoClient reliable_driver example_env s' of (r', s'') \<Rightarrow>
         r' = Inr (MongoClient (length (calls s')) ''valid'') \<and>
         calls s'' = calls s' @
           [NewMongoClient ''valid'' client_options,
            Connect (MongoClient (length (calls s')) ''valid''),
            Ping (MongoClient (length (calls s')) ''valid'')])"
    unfolding closed next_call prod.case by blast
  from cached one cold two uri three show ?thesis
    by (intro conjI) simp_all
qed

subsection \<open>\<open>isValidObjectId\<close>\<close>

lemma match_repeat_Some:
  "match_repeat cls n s = Some rest \<longleftrightarrow>
     n \<le> length s \<and> list_all cls (take n s) \<and> rest = drop n s"
  by (induction cls n s rule: match_repeat.induct) auto

lemma regex_test_iff: "regex_test s \<longleftrightarrow> length s = 24 \<and> list_all hex_class s"
proof (cases "match_repeat hex_class 24 s")
  case None
  then show ?thesis
    using match_repeat_Some [of hex_class 24 s "drop 24 s"]
    by (auto simp: regex_test_def)
next
  case (Some rest)
  then show ?thesis
    using match_repeat_Some [of hex_class 24 s rest]
    by (auto simp: regex_test_def)
qed

lemma in_range_cases:
  assumes "in_range lo hi c"
  shows "\<exists>k\<le>of_char hi - (of_char lo :: nat). c = char_of (of_char lo + k)"
proof -
  from assms have le: "(of_char lo :: nat) \<le> of_char c" "(of_char c :: nat) \<le> of_char hi"
    by (simp_all add: in_range_def)
  then have "of_char c - (of_char lo :: nat) \<le> of_char hi - of_char lo"
    by arith
  moreover from le have "c = char_of (of_char lo + (of_char c - (of_char lo :: nat)))"
    by simp
  ultimately show ?thesis by blast
qed

lemma digit_chars: "in_range CHR ''0'' CHR ''9'' c \<Longrightarrow> c \<in> set ''0123456789''"
proof -
  assume "in_range CHR ''0'' CHR ''9'' c"
  from in_range_cases [OF this] obtain k :: nat where k: "k \<le> 9" "c = char_of (48 + k)"
    by auto
  from k(1) have "k = 0 \<or> k = 1 \<or> k = 2 \<or> k = 3 \<or> k = 4 \<or> k = 5 \<or> k = 6 \<or> k = 7 \<or>
    k = 8 \<or> k = 9"
    by arith
  with k(2) show ?thesis
    by (elim disjE) (simp_all add: char_of_def bit_Suc_0_iff)
qed

lemma lower_chars: "in_range CHR ''a'' CHR ''f'' c \<Longrightarrow> c \<in> set ''abcdef''"
proof -
  assume "in_range CHR ''a'' CHR ''f'' c"
  from in_range_cases [OF this] obtain k :: nat where k: "k \<le> 5" "c = char_of (97 + k)"
    by auto
  from k(1) have "k = 0 \<or> k = 1 \<or> k = 2 \<or> k = 3 \<or> k = 4 \<or> k = 5"
    by arith
  with k(2) show ?thesis
    by (elim disjE) (simp_all add: char_of_def bit_Suc_0_iff)
qed

lemma upper_chars: "in_range CHR ''A'' CHR ''F'' c \<Longrightarrow> c \<in> set ''ABCDEF''"
proof -
  assume "in_range CHR ''A'' CHR ''F'' c"
  from in_range_cases [OF this] obtain k :: nat where k: "k \<le> 5" "c = char_of (65 + k)"
    by auto
  from k(1) have "k = 0 \<or> k = 1 \<or> k = 2 \<or> k = 3 \<or> k = 4 \<or> k = 5"
    by arith
  with k(2) show ?thesis
    by (elim disjE) (simp_all add: char_of_def bit_Suc_0_iff)
qed

lemma hex_class_iff: "hex_class c \<longleftrightarrow> c \<in> set ''0123456789abcdefABCDEF''"
proof
  assume "hex_class c"
  then have "c \<in> set ''0123456789'' \<or> c \<in> set ''abcdef'' \<or> c \<in> set ''ABCDEF''"
    unfolding hex_class_def using digit_chars lower_chars upper_chars by blast
  then have "c \<in> set (''0123456789'' @ ''abcdef'' @ ''ABCDEF'')"
    unfolding set_append by blast
  then show "c \<in> set ''0123456789abcdefABCDEF''"
    by simp
next
  assume "c \<in> set ''0123456789abcdefABCDEF''"
  then show "hex_class c"
    by (auto simp: hex_class_def in_range_def)
qed

text \<open>
  C9. \<open>isValidObjectId\<close> is a function of its argument alone (it takes no world).
  It is true exactly of the strings of 24 characters that are all among
  \<open>0123456789abcdefABCDEF\<close>; it is false of every other string and of every value
  that is not a string.
\<close>

theorem isValidObjectId_iff:
  "isValidObjectId v \<longleftrightarrow>
     (\<exists>s. v = String s \<and> length s = 24 \<and> set s \<subseteq> set ''0123456789abcdefABCDEF'')"
proof (cases v)
  case (String s)
  have "list_all hex_class s \<longleftrightarrow> set s \<subseteq> set ''0123456789abcdefABCDEF''"
    unfolding list_all_iff using hex_class_iff by blast
  with String show ?thesis
    by (simp add: regex_test_iff)
qed simp_all

theorem isValidObjectId_iff_witness:
  "isValidObjectId (String ''0123456789abcdefABCDEF01'') \<and>
   \<not> isValidObjectId (String ''0123456789abcdefABCDEF0'') \<and>
   \<not> isValidObjectId (String ''0123456789abcdefABCDEF012'') \<and>
   \<not> isValidObjectId (String ''0123456789abcdefABCDEF0g'') \<and>
   \<not> isValidObjectId (Number 5) \<and> \<not> isValidObjectId Null \<and>
   \<not> isValidObjectId (Object [])"
  using isValidObjectId_iff [of "String ''0123456789abcdefABCDEF01''"]
    isValidObjectId_iff [of "String ''0123456789abcdefABCDEF0''"]
    isValidObjectId_iff [of "String ''0123456789abcdefABCDEF012''"]
    isValidObjectId_iff [of "String ''0123456789abcdefABCDEF0g''"]
    isValidObjectId_iff [of "Number 5"] isValidObjectId_iff [of Null]
    isValidObjectId_iff [of "Object []"]
  by simp

subsection \<open>\<open>createIndexes\<close>\<close>

lemma createIndex_ok:
  "throws d (length (calls s)) = None \<Longrightarrow>
   createIndex d c keys opts s =
     (Inr (), s\<lparr>calls := calls s @ [CreateIndex c (keys, opts)],
               server := (server s)(namespace_of (collection_db c) (collection_name c) \<mapsto>
                 indexes_of s c @ [(keys, opts)])\<rparr>)"
  by (simp add: createIndex_def indexes_of_def Let_def io_defs)

lemma createIndex_fails:
  "throws d (length (calls s)) = Some e \<Longrightarrow>
   createIndex d c keys opts s = (Inl e, s\<lparr>calls := calls s @ [CreateIndex c (keys, opts)]\<rparr>)"
  by (simp add: createIndex_def io_defs)

lemma createIndexes_block:
  "createIndexes d c =
     try_catch
       (io_block (map (\<lambda>ix. createIndex d c (fst ix) (snd ix)) donation_indexes @
          [console_log [Str ''Collection indexes created successfully'']]))
       (\<lambda>error. console_warn [Str ''Failed to create indexes:'', Str (message error)])"
  by (simp add: createIndexes_def donation_indexes_def)

lemma block_all_ok:
  assumes "\<forall>i<length ixs. throws d (length (calls s) + i) = None"
    and "server s (namespace_of (collection_db c) (collection_name c)) = Some old"
  shows "io_block (map (\<lambda>ix. createIndex d c (fst ix) (snd ix)) ixs @ [m]) s =
     m (s\<lparr>calls := calls s @ map (CreateIndex c) ixs,
          server := (server s)(namespace_of (collection_db c) (collection_name c) \<mapsto>
            old @ ixs)\<rparr>)"
  using assms
proof (induction ixs arbitrary: s old)
  case Nil
  then have "(server s)(namespace_of (collection_db c) (collection_name c) \<mapsto> old) = server s"
    by (simp add: fun_upd_idem)
  then show ?case
    by (simp add: io_then_def io_bind_def io_return_def split: prod.splits sum.splits)
next
  case (Cons ix ixs)
  let ?ns = "namespace_of (collection_db c) (collection_name c)"
  let ?s1 = "s\<lparr>calls := calls s @ [CreateIndex c ix], server := (server s)(?ns \<mapsto> old @ [ix])\<rparr>"
  from Cons.prems have "throws d (length (calls s)) = None"
    by auto
  with Cons.prems have first: "createIndex d c (fst ix) (snd ix) s = (Inr (), ?s1)"
    by (simp add: createIndex_ok indexes_of_def)
  have "\<forall>i<length ixs. throws d (length (calls ?s1) + i) = None"
  proof (intro allI impI)
    fix i assume "i < length ixs"
    with Cons.prems(1) [rule_format, of "Suc i"] show "throws d (length (calls ?s1) + i) = None"
      by simp
  qed
  moreover have "server ?s1 ?ns = Some (old @ [ix])"
    by simp
  ultimately have rest: "io_block (map (\<lambda>ix. createIndex d c (fst ix) (snd ix)) ixs @ [m]) ?s1 =
     m (?s1\<lparr>calls := calls ?s1 @ map (CreateIndex c) ixs,
          server := (server ?s1)(?ns \<mapsto> (old @ [ix]) @ ixs)\<rparr>)"
    by (rule Cons.IH)
  have same: "?s1\<lparr>calls := calls ?s1 @ map (CreateIndex c) ixs,
          server := (server ?s1)(?ns \<mapsto> (old @ [ix]) @ ixs)\<rparr> =
        s\<lparr>calls := calls s @ map (CreateIndex c) (ix # ixs),
          server := (server s)(?ns \<mapsto> old @ ix # ixs)\<rparr>"
    by simp
  have "io_block (map (\<lambda>ix. createIndex d c (fst ix) (snd ix)) (ix # ixs) @ [m]) s =
      io_block (map (\<lambda>ix. createIndex d c (fst ix) (snd ix)) ixs @ [m]) ?s1"
    using first by (simp add: io_then_def io_bind_def)
  with rest same show ?case
    by (simp only:)
qed

lemma block_fails_at:
  assumes "k < length ixs"
    and "\<forall>i<k. throws d (length (calls s) + i) = None"
    and "throws d (length (calls s) + k) = Some e"
    and "server s (namespace_of (collection_db c) (collection_name c)) = Some old"
  shows "io_block (map (\<lambda>ix. createIndex d c (fst ix) (snd ix)) ixs @ [m]) s =
     (Inl e, s\<lparr>calls := calls s @ map (CreateIndex c) (take (Suc k) ixs),
          server := (server s)(namespace_of (collection_db c) (collection_name c) \<mapsto>
            old @ take k ixs)\<rparr>)"
  using assms
proof (induction ixs arbitrary: s old k)
  case Nil
  then show ?case by simp
next
  case (Cons ix ixs)
  let ?ns = "namespace_of (collection_db c) (collection_name c)"
  show ?case
  proof (cases k)
    case 0
    with Cons.prems have "throws d (length (calls s)) = Some e"
      by simp
    then have "createIndex d c (fst ix) (snd ix) s =
        (Inl e, s\<lparr>calls := calls s @ [CreateIndex c ix]\<rparr>)"
      by (simp add: createIndex_fails)
    moreover from Cons.prems have "(server s)(?ns \<mapsto> old) = server s"
      by (simp add: fun_upd_idem)
    ultimately show ?thesis
      using 0 by (simp add: io_then_def io_bind_def)
  next
    case (Suc k')
    let ?s1 = "s\<lparr>calls := calls s @ [CreateIndex c ix],
                 server := (server s)(?ns \<mapsto> old @ [ix])\<rparr>"
    from Cons.prems(2) [rule_format, of 0] Suc have "throws d (length (calls s)) = None"
      by simp
    with Cons.prems have first: "createIndex d c (fst ix) (snd ix) s = (Inr (), ?s1)"
      by (simp add: createIndex_ok indexes_of_def)
    have "k' < length ixs"
      using Cons.prems Suc by simp
    moreover have "\<forall>i<k'. throws d (length (calls ?s1) + i) = None"
    proof (intro allI impI)
      fix i assume "i < k'"
      with Cons.prems(2) [rule_format, of "Suc i"] Suc
      show "throws d (length (calls ?s1) + i) = None"
        by simp
    qed
    moreover have "throws d (length (calls ?s1) + k') = Some e"
      using Cons.prems(3) Suc by simp
    moreover have "server ?s1 ?ns = Some (old @ [ix])"
      by simp
    ultimately have rest:
      "io_block (map (\<lambda>ix. createIndex d c (fst ix) (snd ix)) ixs @ [m]) ?s1 =
       (Inl e, ?s1\<lparr>calls := calls ?s1 @ map (CreateIndex c) (take (Suc k') ixs),
            server := (server ?s1)(?ns \<mapsto> (old @ [ix]) @ take k' ixs)\<rparr>)"
      by (rule Cons.IH)
    have same: "?s1\<lparr>calls := calls ?s1 @ map (CreateIndex c) (take (Suc k') ixs),
            server := (server ?s1)(?ns \<mapsto> (old @ [ix]) @ take k' ixs)\<rparr> =
          s\<lparr>calls := calls s @ map (CreateIndex c) (take (Suc k) (ix # ixs)),
            server := (server s)(?ns \<mapsto> old @ take k (ix # ixs))\<rparr>"
      using Suc by simp
    have "io_block (map (\<lambda>ix. createIndex d c (fst ix) (snd ix)) (ix # ixs) @ [m]) s =
        io_block (map (\<lambda>ix. createIndex d c (fst ix) (snd ix)) ixs @ [m]) ?s1"
      using first by (simp add: io_then_def io_bind_def)
    with rest same show ?thesis
      by (simp only:)
  qed
qed

lemma createIndexes_all_ok:
  assumes "\<forall>i<8. throws d (length (calls s) + i) = None"
    and "server s (namespace_of (collection_db c) (collection_name c)) = Some old"
  shows "createIndexes d c s =
     (Inr (), s\<lparr>calls := calls s @ map (CreateIndex c) donation_indexes,
          server := (server s)(namespace_of (collection_db c) (collection_name c) \<mapsto>
            old @ donation_indexes),
          console := console s @ [(LOG, [Str ''Collection indexes created successfully''])]\<rparr>)"
proof -
  have "length donation_indexes = 8"
    by (simp add: donation_indexes_def)
  with assms(1) have "\<forall>i<length donation_indexes. throws d (length (calls s) + i) = None"
    by simp
  from block_all_ok [OF this assms(2)] show ?thesis
    by (simp add: createIndexes_block try_catch_def console_log_def)
qed

lemma createIndexes_fails_at:
  assumes "k < 8"
    and "\<forall>i<k. throws d (length (calls s) + i) = None"
    and "throws d (length (calls s) + k) = Some e"
    and "server s (namespace_of (collection_db c) (collection_name c)) = Some old"
  shows "createIndexes d c s =
     (Inr (), s\<lparr>calls := calls s @ map (CreateIndex c) (take (Suc k) donation_indexes),
          server := (server s)(namespace_of (collection_db c) (collection_name c) \<mapsto>
            old @ take k donation_indexes),
          console := console s @
            [(WARN, [Str ''Failed to create indexes:'', Str (message e)])]\<rparr>)"
proof -
  have "length donation_indexes = 8"
    by (simp add: donation_indexes_def)
  with assms(1) have "k < length donation_indexes"
    by simp
  from block_fails_at [OF this assms(2,3,4)] show ?thesis
    by (simp add: createIndexes_block try_catch_def console_warn_def)
qed

lemma createIndexes_never_throws: "fst (createIndexes d c s) = Inr ()"
  by (simp add: createIndexes_block try_catch_def console_warn_def split: prod.splits sum.splits)

text \<open>
  C4, as stated, fails. From a cold start against an empty database, with a driver whose
  only failing call is the third \<open>createIndex\<close>, \<open>getDonationCollection\<close> issues three
  \<open>createIndex\<close> calls and the server ends with the first two indexes: the five
  indexes after the failing one are never attempted.
\<close>

theorem createIndexes_failure_blocks_later_indexes:
  "throws index_failing_driver 7 = Some (Error ''index build failed'') \<and>
   throws index_failing_driver 8 = None \<and>
   fst (getDonationCollection index_failing_driver example_env fresh_world) =
     Inr (Collection (Db (MongoClient 0 ''valid'') ''testdb'') ''donations'') \<and>
   filter is_createIndex
     (calls (snd (getDonationCollection index_failing_driver example_env fresh_world))) =
     map (CreateIndex (Collection (Db (MongoClient 0 ''valid'') ''testdb'') ''donations''))
       (take 3 donation_indexes) \<and>
   indexes_of (snd (getDonationCollection index_failing_driver example_env fresh_world))
     (Collection (Db (MongoClient 0 ''valid'') ''testdb'') ''donations'') =
     take 2 donation_indexes"
  by (simp add: module_defs example_defs index_failing_driver_def donation_indexes_def
      indexes_of_def)

text \<open>
  C4, amended. \<open>createIndexes\<close> issues its eight \<open>createIndex\<close> calls one after the
  other inside a single \<open>try\<close> block. On a collection that exists, when all eight
  succeed the collection gains the eight indexes in order and the success line is
  logged; when the call number \<open>k\<close> (from 0) is the first to fail, the \<open>k\<close> indexes
  before it are created, no call is issued after it, and the failure is logged as one
  warning. In both cases \<open>createIndexes\<close> returns normally.
\<close>

theorem createIndexes_stops_at_first_failure:
  assumes "server s (namespace_of (collection_db c) (collection_name c)) = Some old"
  shows "((\<forall>i<8. throws d (length (calls s) + i) = None) \<longrightarrow>
      createIndexes d c s =
        (Inr (), s\<lparr>calls := calls s @ map (CreateIndex c) donation_indexes,
           server := (server s)(namespace_of (collection_db c) (collection_name c) \<mapsto>
             old @ donation_indexes),
           console := console s @
             [(LOG, [Str ''Collection indexes created successfully''])]\<rparr>))
   \<and> (k < 8 \<and> (\<forall>i<k. throws d (length (calls s) + i) = None) \<and>
        throws d (length (calls s) + k) = Some e \<longrightarrow>
      createIndexes d c s =
        (Inr (), s\<lparr>calls := calls s @ map (CreateIndex c) (take (Suc k) donation_indexes),
           server := (server s)(namespace_of (collection_db c) (collection_name c) \<mapsto>
             old @ take k donation_indexes),
           console := console s @
             [(WARN, [Str ''Failed to create indexes:'', Str (message e)])]\<rparr>))"
  using createIndexes_all_ok [OF _ assms, of d] createIndexes_fails_at [OF _ _ _ assms, of k d e]
  by blast

theorem createIndexes_stops_at_first_failure_witness:
  "server collection_world (namespace_of (Db (MongoClient 0 ''valid'') ''testdb'') ''donations'') =
     Some [] \<and>
   throws index_failing_driver (length (calls collection_world) + 4) =
     Some (Error ''index build failed'') \<and>
   createIndexes index_failing_driver
     (Collection (Db (MongoClient 0 ''valid'') ''testdb'') ''donations'') collection_world =
     (Inr (),
      collection_world\<lparr>calls := calls collection_world @
          map (CreateIndex (Collection (Db (MongoClient 0 ''valid'') ''testdb'') ''donations''))
            (take 5 donation_indexes),
        server := (server collection_world)
          (namespace_of (Db (MongoClient 0 ''valid'') ''testdb'') ''donations'' \<mapsto>
             take 4 donation_indexes),
        console := [(WARN, [Str ''Failed to create indexes:'', Str ''index build failed''])]\<rparr>)"
proof -
  let ?c = "Collection (Db (MongoClient 0 ''valid'') ''testdb'') ''donations''"
  have exists: "server collection_world (namespace_of (collection_db ?c) (collection_name ?c)) =
      Some []"
    by (simp add: collection_world_def namespace_of_def)
  have fails: "(4::nat) < 8 \<and>
      (\<forall>i<4. throws index_failing_driver (length (calls collection_world) + i) = None) \<and>
      throws index_failing_driver (length (calls collection_world) + 4) =
        Some (Error ''index build failed'')"
    by (simp add: collection_world_def stale_db_world_def connected_world_def
        index_failing_driver_def)
  from createIndexes_stops_at_first_failure [OF exists, THEN conjunct2, THEN mp, OF fails]
    exists fails
  show ?thesis
    by (simp add: collection_world_def stale_db_world_def connected_world_def)
qed

subsection \<open>\<open>getDatabase\<close> and \<open>getDonationCollection\<close>\<close>

lemma getDatabase_run:
  "getDatabase d env s =
     (case getMongoClient d env s of
        (Inl e, s') \<Rightarrow>
          (Inl e, s'\<lparr>console := console s' @ [(ERROR, [Str ''Failed to get database:'', Err e])]\<rparr>)
      | (Inr client, s') \<Rightarrow>
          (case cachedDb s' of
             None \<Rightarrow>
               (Inr (Db client (or_default (DATABASE_NAME env) ''donation_system'')),
                s'\<lparr>cachedDb :=
                  Some (Db client (or_default (DATABASE_NAME env) ''donation_system''))\<rparr>)
           | Some database \<Rightarrow> (Inr database, s')))"
  by (simp add: getDatabase_def io_defs Let_def split: prod.splits sum.splits option.splits)

lemma getDatabase_frame:
  assumes "getDatabase d env s = (r, s')"
  shows "server s' = server s \<and>
     filter is_creation (calls s') = filter is_creation (calls s) \<and>
     (\<forall>x. r = Inr x \<longrightarrow> cachedDb s' = Some x) \<and>
     (\<forall>database. cachedDb s = Some database \<longrightarrow> cachedDb s' = Some database)"
proof -
  obtain r0 s0 where client: "getMongoClient d env s = (r0, s0)"
    by (cases "getMongoClient d env s")
  from getMongoClient_frame [OF client] assms client show ?thesis
    by (auto simp: getDatabase_run split: sum.splits option.splits)
qed

lemma getDonationCollection_no_database:
  assumes "getDatabase d env s = (Inl e, s0)"
  shows "getDonationCollection d env s =
     (Inl e, s0\<lparr>console := console s0 @ [(ERROR, [Str ''Failed to get collection:'', Err e])]\<rparr>)"
  using assms by (simp add: getDonationCollection_def io_defs)

lemma getDonationCollection_list_fails:
  assumes "getDatabase d env s = (Inr database, s0)"
    and "throws d (length (calls s0)) = Some e"
  shows "getDonationCollection d env s =
     (Inl e,
      s0\<lparr>calls := calls s0 @
           [ListCollections database (or_default (COLLECTION_NAME env) ''donations'')],
         console := console s0 @ [(ERROR, [Str ''Failed to get collection:'', Err e])]\<rparr>)"
  using assms by (simp add: getDonationCollection_def listCollections_def Let_def io_defs)

lemma getDonationCollection_present:
  assumes "getDatabase d env s = (Inr database, s0)"
    and "throws d (length (calls s0)) = None"
    and "server s0 (namespace_of database (or_default (COLLECTION_NAME env) ''donations'')) =
       Some ixs"
  shows "getDonationCollection d env s =
     (Inr (Collection database (or_default (COLLECTION_NAME env) ''donations'')),
      s0\<lparr>calls := calls s0 @
           [ListCollections database (or_default (COLLECTION_NAME env) ''donations'')]\<rparr>)"
  using assms by (simp add: getDonationCollection_def listCollections_def Let_def io_defs)

lemma createIndexes_case:
  "(case createIndexes d c s of (Inl e, s') \<Rightarrow> f e s' | (Inr x, s') \<Rightarrow> g x s') =
     g () (snd (createIndexes d c s))"
  using createIndexes_never_throws [of d c s]
  by (cases "createIndexes d c s") (auto split: sum.splits)

lemma getDonationCollection_absent:
  assumes "getDatabase d env s = (Inr database, s0)"
    and "throws d (length (calls s0)) = None"
    and "throws d (Suc (length (calls s0))) = None"
    and "server s0 (namespace_of database (or_default (COLLECTION_NAME env) ''donations'')) =
       None"
  shows "getDonationCollection d env s =
     (Inr (Collection database (or_default (COLLECTION_NAME env) ''donations'')),
      snd (createIndexes d (Collection database (or_default (COLLECTION_NAME env) ''donations''))
        (s0\<lparr>console := console s0 @
             [(LOG, [Str (''Creating collection: '' @
                 or_default (COLLECTION_NAME env) ''donations'')])],
           calls := calls s0 @
             [ListCollections database (or_default (COLLECTION_NAME env) ''donations''),
              CreateCollection database (or_default (COLLECTION_NAME env) ''donations'')],
           server := (server s0)
             (namespace_of database (or_default (COLLECTION_NAME env) ''donations'') \<mapsto>
                [])\<rparr>)))"
  using assms
  by (simp add: getDonationCollection_def listCollections_def createCollection_def Let_def
      io_defs createIndexes_case)

lemma provision_all_ok:
  assumes db: "getDatabase d env s = (Inr database, s0)"
    and name: "name = or_default (COLLECTION_NAME env) ''donations''"
    and absent: "server s0 (namespace_of database name) = None"
    and ok: "\<forall>i<10. throws d (length (calls s0) + i) = None"
  shows "getDonationCollection d env s =
     (Inr (Collection database name),
      s0\<lparr>console := console s0 @
           [(LOG, [Str (''Creating collection: '' @ name)]),
            (LOG, [Str ''Collection indexes created successfully''])],
         calls := calls s0 @ ListCollections database name # CreateCollection database name #
           map (CreateIndex (Collection database name)) donation_indexes,
         server := (server s0)(namespace_of database name \<mapsto> donation_indexes)\<rparr>)"
proof -
  let ?s2 = "s0\<lparr>console := console s0 @ [(LOG, [Str (''Creating collection: '' @ name)])],
           calls := calls s0 @ [ListCollections database name, CreateCollection database name],
           server := (server s0)(namespace_of database name \<mapsto> [])\<rparr>"
  let ?col = "Collection database name"
  have t: "throws d (length (calls s0)) = None" "throws d (Suc (length (calls s0))) = None"
    using ok [rule_format, of 0] ok [rule_format, of 1] by simp_all
  have "\<forall>i<8. throws d (length (calls ?s2) + i) = None"
  proof (intro allI impI)
    fix i :: nat assume "i < 8"
    with ok [rule_format, of "i + 2"] show "throws d (length (calls ?s2) + i) = None"
      by (simp add: add.commute)
  qed
  moreover have "server ?s2 (namespace_of (collection_db ?col) (collection_name ?col)) = Some []"
    by simp
  ultimately have "createIndexes d ?col ?s2 =
     (Inr (), ?s2\<lparr>calls := calls ?s2 @ map (CreateIndex ?col) donation_indexes,
          server := (server ?s2)(namespace_of (collection_db ?col) (collection_name ?col) \<mapsto>
            [] @ donation_indexes),
          console := console ?s2 @
            [(LOG, [Str ''Collection indexes created successfully''])]\<rparr>)"
    by (rule createIndexes_all_ok)
  with getDonationCollection_absent [OF db t] absent name show ?thesis
    by simp
qed

lemma provision_fails_at:
  assumes db: "getDatabase d env s = (Inr database, s0)"
    and name: "name = or_default (COLLECTION_NAME env) ''donations''"
    and absent: "server s0 (namespace_of database name) = None"
    and ok: "\<forall>i<k + 2. throws d (length (calls s0) + i) = None"
    and k: "k < 8"
    and fails: "throws d (length (calls s0) + (k + 2)) = Some e"
  shows "getDonationCollection d env s =
     (Inr (Collection database name),
      s0\<lparr>console := console s0 @
           [(LOG, [Str (''Creating collection: '' @ name)]),
            (WARN, [Str ''Failed to create indexes:'', Str (message e)])],
         calls := calls s0 @ ListCollections database name # CreateCollection database name #
           map (CreateIndex (Collection database name)) (take (Suc k) donation_indexes),
         server := (server s0)(namespace_of database name \<mapsto> take k donation_indexes)\<rparr>)"
proof -
  let ?s2 = "s0\<lparr>console := console s0 @ [(LOG, [Str (''Creating collection: '' @ name)])],
           calls := calls s0 @ [ListCollections database name, CreateCollection database name],
           server := (server s0)(namespace_of database name \<mapsto> [])\<rparr>"
  let ?col = "Collection database name"
  have t: "throws d (length (calls s0)) = None" "throws d (Suc (length (calls s0))) = None"
    using ok [rule_format, of 0] ok [rule_format, of 1] by simp_all
  have "\<forall>i<k. throws d (length (calls ?s2) + i) = None"
  proof (intro allI impI)
    fix i :: nat assume "i < k"
    with ok [rule_format, of "i + 2"] show "throws d (length (calls ?s2) + i) = None"
      by (simp add: add.commute)
  qed
  moreover have "throws d (length (calls ?s2) + k) = Some e"
    using fails by (simp add: add.commute)
  moreover have "server ?s2 (namespace_of (collection_db ?col) (collection_name ?col)) = Some []"
    by simp
  ultimately have "createIndexes d ?col ?s2 =
     (Inr (), ?s2\<lparr>calls := calls ?s2 @ map (CreateIndex ?col) (take (Suc k) donation_indexes),
          server := (server ?s2)(namespace_of (collection_db ?col) (collection_name ?col) \<mapsto>
            [] @ take k donation_indexes),
          console := console ?s2 @
            [(WARN, [Str ''Failed to create indexes:'', Str (message e)])]\<rparr>)"
    by (rule createIndexes_fails_at [OF k])
  with getDonationCollection_absent [OF db t] absent name show ?thesis
    by simp
qed

lemma getDonationCollection_again:
  assumes cached: "cachedDb s = Some database"
    and name: "name = or_default (COLLECTION_NAME env) ''donations''"
    and present: "server s (namespace_of database name) = Some ixs"
  shows "case getDonationCollection d env s of (r, s') \<Rightarrow>
     filter is_creation (calls s') = filter is_creation (calls s) \<and>
     server s' = server s \<and>
     r = (case getDatabase d env s of
            (Inl e, _) \<Rightarrow> Inl e
          | (Inr _, s0) \<Rightarrow>
              (case throws d (length (calls s0)) of
                 Some e \<Rightarrow> Inl e
               | None \<Rightarrow> Inr (Collection database name)))"
proof -
  obtain r0 s0 where db: "getDatabase d env s = (r0, s0)"
    by (cases "getDatabase d env s")
  note frame = getDatabase_frame [OF db]
  show ?thesis
  proof (cases r0)
    case (Inl e)
    with db frame getDonationCollection_no_database [of d env s e s0] show ?thesis
      by simp
  next
    case (Inr x)
    with frame cached have x: "x = database"
      by auto
    show ?thesis
    proof (cases "throws d (length (calls s0))")
      case None
      from frame present have "server s0 (namespace_of database name) = Some ixs"
        by simp
      with getDonationCollection_present [of d env s database s0 ixs] db Inr x None name frame
      show ?thesis
        by simp
    next
      case (Some e)
      with getDonationCollection_list_fails [of d env s database s0 e] db Inr x name frame
      show ?thesis
        by simp
    qed
  qed
qed

text \<open>
  C5. \<open>createIndexes\<close> never throws. So whenever \<open>getDatabase\<close> returns a handle,
  listing the collections succeeds and, if the collection is absent, creating it
  succeeds, \<open>getDonationCollection\<close> returns the collection handle, whatever the
  \<open>createIndex\<close> calls do. When the collection is absent and \<open>createIndex\<close> call
  number \<open>k\<close> is the first to fail, the caller gets the handle, the failure is on the
  console as a warning, and the collection holds the \<open>k\<close> indexes created before it.
\<close>

theorem getDonationCollection_survives_index_failure:
  "fst (createIndexes d c s) = Inr ()
   \<and> (getDatabase d env s = (Inr database, s0) \<and>
       name = or_default (COLLECTION_NAME env) ''donations'' \<and>
       throws d (length (calls s0)) = None \<and>
       (server s (namespace_of database name) = None \<longrightarrow>
          throws d (Suc (length (calls s0))) = None) \<longrightarrow>
      fst (getDonationCollection d env s) = Inr (Collection database name))
   \<and> (getDatabase d env s = (Inr database, s0) \<and>
       name = or_default (COLLECTION_NAME env) ''donations'' \<and>
       server s (namespace_of database name) = None \<and> k < 8 \<and>
       (\<forall>i<k + 2. throws d (length (calls s0) + i) = None) \<and>
       throws d (length (calls s0) + (k + 2)) = Some e \<longrightarrow>
      getDonationCollection d env s =
        (Inr (Collection database name),
         s0\<lparr>console := console s0 @
              [(LOG, [Str (''Creating collection: '' @ name)]),
               (WARN, [Str ''Failed to create indexes:'', Str (message e)])],
            calls := calls s0 @ ListCollections database name #
              CreateCollection database name #
              map (CreateIndex (Collection database name)) (take (Suc k) donation_indexes),
            server := (server s0)(namespace_of database name \<mapsto>
              take k donation_indexes)\<rparr>))"
proof (intro conjI impI)
  show "fst (createIndexes d c s) = Inr ()"
    by (rule createIndexes_never_throws)
next
  assume a: "getDatabase d env s = (Inr database, s0) \<and>
       name = or_default (COLLECTION_NAME env) ''donations'' \<and>
       throws d (length (calls s0)) = None \<and>
       (server s (namespace_of database name) = None \<longrightarrow>
          throws d (Suc (length (calls s0))) = None)"
  then have db: "getDatabase d env s = (Inr database, s0)"
    and name: "name = or_default (COLLECTION_NAME env) ''donations''"
    and list: "throws d (length (calls s0)) = None"
    by blast+
  from getDatabase_frame [OF db] have same: "server s0 = server s"
    by simp
  show "fst (getDonationCollection d env s) = Inr (Collection database name)"
  proof (cases "server s (namespace_of database name)")
    case None
    with a have "throws d (Suc (length (calls s0))) = None"
      by simp
    from getDonationCollection_absent [OF db list this] None same name show ?thesis
      by simp
  next
    case (Some ixs)
    with getDonationCollection_present [OF db list, of ixs] same name show ?thesis
      by simp
  qed
next
  assume a: "getDatabase d env s = (Inr database, s0) \<and>
       name = or_default (COLLECTION_NAME env) ''donations'' \<and>
       server s (namespace_of database name) = None \<and> k < 8 \<and>
       (\<forall>i<k + 2. throws d (length (calls s0) + i) = None) \<and>
       throws d (length (calls s0) + (k + 2)) = Some e"
  then have db: "getDatabase d env s = (Inr database, s0)"
    and name: "name = or_default (COLLECTION_NAME env) ''donations''"
    and absent: "server s (namespace_of database name) = None"
    and k: "k < 8"
    and ok: "\<forall>i<k + 2. throws d (length (calls s0) + i) = None"
    and fails: "throws d (length (calls s0) + (k + 2)) = Some e"
    by blast+
  from getDatabase_frame [OF db] absent
  have "server s0 (namespace_of database name) = None"
    by simp
  from provision_fails_at [OF db name this ok k fails]
  show "getDonationCollection d env s =
        (Inr (Collection database name),
         s0\<lparr>console := console s0 @
              [(LOG, [Str (''Creating collection: '' @ name)]),
               (WARN, [Str ''Failed to create indexes:'', Str (message e)])],
            calls := calls s0 @ ListCollections database name #
              CreateCollection database name #
              map (CreateIndex (Collection database name)) (take (Suc k) donation_indexes),
            server := (server s0)(namespace_of database name \<mapsto>
              take k donation_indexes)\<rparr>)" .
qed

theorem getDonationCollection_survives_index_failure_witness:
  "getDatabase index_failing_driver example_env fresh_world =
     (Inr (Db (MongoClient 0 ''valid'') ''testdb''),
      snd (getDatabase index_failing_driver example_env fresh_world)) \<and>
   server fresh_world (namespace_of (Db (MongoClient 0 ''valid'') ''testdb'') ''donations'') =
     None \<and>
   throws index_failing_driver
     (length (calls (snd (getDatabase index_failing_driver example_env fresh_world))) + (2 + 2)) =
     Some (Error ''index build failed'') \<and>
   fst (createIndexes index_failing_driver
     (Collection (Db (MongoClient 0 ''valid'') ''testdb'') ''donations'') collection_world) =
     Inr () \<and>
   fst (getDonationCollection index_failing_driver example_env fresh_world) =
     Inr (Collection (Db (MongoClient 0 ''valid'') ''testdb'') ''donations'') \<and>
   drop 5 (console (snd (getDonationCollection index_failing_driver example_env fresh_world))) =
     [(LOG, [Str ''Creating collection: donations'']),
      (WARN, [Str ''Failed to create indexes:'', Str ''index build failed''])]"
proof -
  let ?db = "Db (MongoClient 0 ''valid'') ''testdb''"
  let ?s0 = "snd (getDatabase index_failing_driver example_env fresh_world)"
  note survives = getDonationCollection_survives_index_failure
  have db: "getDatabase index_failing_driver example_env fresh_world = (Inr ?db, ?s0)"
    by (simp add: module_defs example_defs index_failing_driver_def)
  have name: "''donations'' = or_default (COLLECTION_NAME example_env) ''donations''"
    by (simp add: example_defs)
  have absent: "server fresh_world (namespace_of ?db ''donations'') = None"
    by (simp add: example_defs)
  have len: "length (calls ?s0) = 3" and logged: "length (console ?s0) = 5"
    by (simp_all add: module_defs example_defs index_failing_driver_def)
  have ok: "\<forall>i<2 + 2. throws index_failing_driver (length (calls ?s0) + i) = None"
    and fails: "throws index_failing_driver (length (calls ?s0) + (2 + 2)) =
      Some (Error ''index build failed'')"
    unfolding len by (simp_all add: index_failing_driver_def)
  have hyps: "getDatabase index_failing_driver example_env fresh_world = (Inr ?db, ?s0) \<and>
       ''donations'' = or_default (COLLECTION_NAME example_env) ''donations'' \<and>
       server fresh_world (namespace_of ?db ''donations'') = None \<and> (2::nat) < 8 \<and>
       (\<forall>i<2 + 2. throws index_failing_driver (length (calls ?s0) + i) = None) \<and>
       throws index_failing_driver (length (calls ?s0) + (2 + 2)) =
         Some (Error ''index build failed'')"
    using db name absent ok fails by simp
  note run = survives [where d = index_failing_driver and env = example_env
      and s = fresh_world and database = ?db and ?s0.0 = ?s0 and name = "''donations''"
      and k = 2 and e = "Error ''index build failed''",
      THEN conjunct2, THEN conjunct2, THEN mp, OF hyps]
  have never: "fst (createIndexes index_failing_driver (Collection ?db ''donations'')
      collection_world) = Inr ()"
    by (rule survives [THEN conjunct1])
  from run have returned: "fst (getDonationCollection index_failing_driver example_env
      fresh_world) = Inr (Collection ?db ''donations'')"
    by simp
  from run logged have warned: "drop 5 (console (snd (getDonationCollection
      index_failing_driver example_env fresh_world))) =
     [(LOG, [Str ''Creating collection: donations'']),
      (WARN, [Str ''Failed to create indexes:'', Str ''index build failed''])]"
    by simp
  from db absent fails never returned warned show ?thesis
    by (intro conjI)
qed

text \<open>
  C3. Let \<open>getDatabase\<close> return a handle, the collection be absent from the server, and
  the ten driver calls that follow (list, create, eight indexes) succeed. Then the first
  \<open>getDonationCollection\<close> returns the collection handle after exactly one
  \<open>createCollection\<close> and the eight \<open>createIndex\<close> calls, and the server holds the
  collection with the eight indexes. A second call right after it issues no
  \<open>createCollection\<close> and no \<open>createIndex\<close> and leaves the server as it is, whatever
  the driver does; it returns the same collection handle unless resolving the database
  or listing the collections throws, and then it throws that error.
\<close>

theorem getDonationCollection_provisions_once:
  assumes db: "getDatabase d env s = (Inr database, s0)"
    and name: "name = or_default (COLLECTION_NAME env) ''donations''"
    and absent: "server s (namespace_of database name) = None"
    and ok: "\<forall>i<10. throws d (length (calls s0) + i) = None"
  shows "case getDonationCollection d env s of (r1, s1) \<Rightarrow>
     r1 = Inr (Collection database name) \<and>
     calls s1 = calls s0 @ ListCollections database name # CreateCollection database name #
       map (CreateIndex (Collection database name)) donation_indexes \<and>
     server s1 = (server s)(namespace_of database name \<mapsto> donation_indexes) \<and>
     (case getDonationCollection d env s1 of (r2, s2) \<Rightarrow>
        filter is_creation (calls s2) = filter is_creation (calls s1) \<and>
        server s2 = server s1 \<and>
        r2 = (case getDatabase d env s1 of
                (Inl e, _) \<Rightarrow> Inl e
              | (Inr _, s1') \<Rightarrow>
                  (case throws d (length (calls s1')) of
                     Some e \<Rightarrow> Inl e
                   | None \<Rightarrow> Inr (Collection database name))))"
proof -
  let ?s1 = "s0\<lparr>console := console s0 @
           [(LOG, [Str (''Creating collection: '' @ name)]),
            (LOG, [Str ''Collection indexes created successfully''])],
         calls := calls s0 @ ListCollections database name # CreateCollection database name #
           map (CreateIndex (Collection database name)) donation_indexes,
         server := (server s0)(namespace_of database name \<mapsto> donation_indexes)\<rparr>"
  note frame = getDatabase_frame [OF db]
  from frame absent have "server s0 (namespace_of database name) = None"
    by simp
  from provision_all_ok [OF db name this ok]
  have first: "getDonationCollection d env s = (Inr (Collection database name), ?s1)" .
  from frame have cached: "cachedDb ?s1 = Some database"
    by simp
  have present: "server ?s1 (namespace_of database name) = Some donation_indexes"
    by simp
  note second = getDonationCollection_again [OF cached name present, of d]
  have "server ?s1 = (server s)(namespace_of database name \<mapsto> donation_indexes)"
    using frame by simp
  with second show ?thesis
    unfolding first prod.case by simp
qed

theorem getDonationCollection_provisions_once_witness:
  "getDatabase reliable_driver example_env fresh_world =
     (Inr (Db (MongoClient 0 ''valid'') ''testdb''),
      snd (getDatabase reliable_driver example_env fresh_world)) \<and>
   server fresh_world (namespace_of (Db (MongoClient 0 ''valid'') ''testdb'') ''donations'') =
     None \<and>
   fst (getDonationCollection reliable_driver example_env fresh_world) =
     Inr (Collection (Db (MongoClient 0 ''valid'') ''testdb'') ''donations'') \<and>
   filter is_creation (calls (snd (getDonationCollection reliable_driver example_env
      fresh_world))) =
     CreateCollection (Db (MongoClient 0 ''valid'') ''testdb'') ''donations'' #
     map (CreateIndex (Collection (Db (MongoClient 0 ''valid'') ''testdb'') ''donations''))
       donation_indexes \<and>
   filter is_creation (calls (snd (getDonationCollection reliable_driver example_env
      (snd (getDonationCollection reliable_driver example_env fresh_world))))) =
     filter is_creation (calls (snd (getDonationCollection reliable_driver example_env
      fresh_world))) \<and>
   fst (getDonationCollection reliable_driver example_env
      (snd (getDonationCollection reliable_driver example_env fresh_world))) =
     Inr (Collection (Db (MongoClient 0 ''valid'') ''testdb'') ''donations'')"
proof -
  let ?db = "Db (MongoClient 0 ''valid'') ''testdb''"
  let ?s0 = "snd (getDatabase reliable_driver example_env fresh_world)"
  have db: "getDatabase reliable_driver example_env fresh_world = (Inr ?db, ?s0)"
    by (simp add: module_defs example_defs)
  have name: "''donations'' = or_default (COLLECTION_NAME example_env) ''donations''"
    by (simp add: example_defs)
  have absent: "server fresh_world (namespace_of ?db ''donations'') = None"
    by (simp add: example_defs)
  have ok: "\<forall>i<10. throws reliable_driver (length (calls ?s0) + i) = None"
    by (simp add: reliable_driver_def)
  note once = getDonationCollection_provisions_once [OF db name absent ok]
  have calls0: "filter is_creation (calls ?s0) = []"
    by (simp add: module_defs example_defs)
  from once have first: "fst (getDonationCollection reliable_driver example_env fresh_world) =
      Inr (Collection ?db ''donations'')"
    by (simp split: prod.splits)
  from once calls0 have created: "filter is_creation
      (calls (snd (getDonationCollection reliable_driver example_env fresh_world))) =
     CreateCollection ?db ''donations'' #
     map (CreateIndex (Collection ?db ''donations'')) donation_indexes"
    by (simp split: prod.splits add: comp_def)
  from once have again: "filter is_creation (calls (snd (getDonationCollection reliable_driver
      example_env (snd (getDonationCollection reliable_driver example_env fresh_world))))) =
     filter is_creation (calls (snd (getDonationCollection reliable_driver example_env
      fresh_world)))"
    by (simp split: prod.splits)
  have second: "fst (getDonationCollection reliable_driver example_env
      (snd (getDonationCollection reliable_driver example_env fresh_world))) =
     Inr (Collection ?db ''donations'')"
    by (simp add: module_defs example_defs)
  from db absent first created again second show ?thesis
    by (intro conjI)
qed

text \<open>
  C8, as stated, fails: the handle is re-derived within the lifetime of the process.
  After \<open>getDatabase\<close> has cached the handle of database \<open>testdb\<close>, a
  \<open>closeMongoConnection\<close> empties the cache, and the next \<open>getDatabase\<close>, called
  with \<open>DATABASE_NAME = other\<close>, derives and returns a handle of database \<open>other\<close> on
  a new client.
\<close>

theorem getDatabase_rederives_after_close:
  "fst (getDatabase reliable_driver example_env fresh_world) =
     Inr (Db (MongoClient 0 ''valid'') ''testdb'') \<and>
   cachedDb (snd (getDatabase reliable_driver example_env fresh_world)) =
     Some (Db (MongoClient 0 ''valid'') ''testdb'') \<and>
   fst (getDatabase reliable_driver other_env
     (snd (closeMongoConnection reliable_driver
       (snd (getDatabase reliable_driver example_env fresh_world))))) =
     Inr (Db (MongoClient 4 ''valid'') ''other'')"
  by (simp add: module_defs example_defs other_env_def)

text \<open>
  C8, amended. While \<open>cachedDb\<close> holds a handle, every \<open>getDatabase\<close> leaves that
  handle in the cache, and returns it when \<open>getMongoClient\<close> returns a client,
  whatever \<open>DATABASE_NAME\<close> is; when \<open>getMongoClient\<close> throws, \<open>getDatabase\<close> throws
  the same error. A handle is derived, from the configured or default name, only when
  \<open>cachedDb\<close> is empty: on the first call, and again once \<open>closeMongoConnection\<close> has
  emptied the cache.
\<close>

theorem getDatabase_keeps_cached_handle:
  "(cachedDb s = Some database \<longrightarrow>
      (case getDatabase d env s of (r, s') \<Rightarrow>
         cachedDb s' = Some database \<and>
         r = (case fst (getMongoClient d env s) of Inl e \<Rightarrow> Inl e | Inr _ \<Rightarrow> Inr database)))
   \<and> (cachedDb s = None \<and> getMongoClient d env s = (Inr client, s0) \<longrightarrow>
      getDatabase d env s =
        (Inr (Db client (or_default (DATABASE_NAME env) ''donation_system'')),
         s0\<lparr>cachedDb := Some (Db client (or_default (DATABASE_NAME env) ''donation_system''))\<rparr>))"
proof (intro conjI impI)
  assume cached: "cachedDb s = Some database"
  obtain r0 s1 where client: "getMongoClient d env s = (r0, s1)"
    by (cases "getMongoClient d env s")
  from getMongoClient_frame [OF client] cached have "cachedDb s1 = Some database"
    by simp
  with client show "case getDatabase d env s of (r, s') \<Rightarrow>
         cachedDb s' = Some database \<and>
         r = (case fst (getMongoClient d env s) of Inl e \<Rightarrow> Inl e | Inr _ \<Rightarrow> Inr database)"
    by (simp add: getDatabase_run split: sum.splits)
next
  assume a: "cachedDb s = None \<and> getMongoClient d env s = (Inr client, s0)"
  then have client: "getMongoClient d env s = (Inr client, s0)"
    by blast
  from getMongoClient_frame [OF client] a have "cachedDb s0 = None"
    by simp
  with client show "getDatabase d env s =
        (Inr (Db client (or_default (DATABASE_NAME env) ''donation_system'')),
         s0\<lparr>cachedDb := Some (Db client (or_default (DATABASE_NAME env) ''donation_system''))\<rparr>)"
    by (simp add: getDatabase_run)
qed

theorem getDatabase_keeps_cached_handle_witness:
  "cachedDb stale_db_world = Some (Db (MongoClient 0 ''valid'') ''testdb'') \<and>
   DATABASE_NAME other_env = Some ''other'' \<and>
   fst (getDatabase reliable_driver other_env stale_db_world) =
     Inr (Db (MongoClient 0 ''valid'') ''testdb'') \<and>
   cachedDb (snd (getDatabase reliable_driver other_env stale_db_world)) =
     Some (Db (MongoClient 0 ''valid'') ''testdb'') \<and>
   cachedDb fresh_world = None \<and>
   fst (getDatabase reliable_driver other_env fresh_world) =
     Inr (Db (MongoClient 0 ''valid'') ''other'')"
proof -
  let ?db = "Db (MongoClient 0 ''valid'') ''testdb''"
  note keeps = getDatabase_keeps_cached_handle
  have cached: "cachedDb stale_db_world = Some ?db"
    and other: "DATABASE_NAME other_env = Some ''other''"
    and cold: "cachedDb fresh_world = None"
    by (simp_all add: example_defs stale_db_world_def other_env_def)
  have client: "fst (getMongoClient reliable_driver other_env stale_db_world) =
      Inr (MongoClient 0 ''valid'')"
    by (simp add: run_defs example_defs stale_db_world_def other_env_def)
  from keeps [where s = stale_db_world and database = ?db and d = reliable_driver
      and env = other_env, THEN conjunct1, THEN mp, OF cached] client
  have kept: "fst (getDatabase reliable_driver other_env stale_db_world) = Inr ?db"
    "cachedDb (snd (getDatabase reliable_driver other_env stale_db_world)) = Some ?db"
    by (simp_all split: prod.splits)
  have connect: "cachedDb fresh_world = None \<and>
      getMongoClient reliable_driver other_env fresh_world =
        (Inr (MongoClient 0 ''valid''), snd (getMongoClient reliable_driver other_env fresh_world))"
    by (simp add: run_defs example_defs other_env_def)
  from keeps [where s = fresh_world and d = reliable_driver and env = other_env,
      THEN conjunct2, THEN mp, OF connect]
  have derived: "fst (getDatabase reliable_driver other_env fresh_world) =
      Inr (Db (MongoClient 0 ''valid'') ''other'')"
    by (simp add: other_env_def example_env_def)
  from cached other kept cold derived show ?thesis
    by (intro conjI)
qed

end
